theory Spec2Isabelle
  imports Complex_Main "HOL-Library.Word"
begin

unbundle bit_operations_syntax

section \<open>Machine types and the outside world\<close>

text \<open>
  The driver in \<^verbatim>\<open>src/rtl-sdr.c\<close> talks to three collaborators that are not part of
  the file: libusb (control and bulk transfers, sessions, device handles), the four tuner
  chip drivers, and the user's streaming callback. Their answers are parameters of the
  model (the record \<open>usb_env\<close>); what the driver asks of them is recorded, in order, in
  a trace of events.
\<close>

type_synonym u8 = "8 word"
type_synonym u16 = "16 word"
type_synonym u32 = "32 word"

text \<open>\<^verbatim>\<open>enum rtlsdr_tuners\<close>: the index into the static table \<^verbatim>\<open>tuners[]\<close>.\<close>

datatype rtlsdr_tuners =
    RTLSDR_TUNER_E4000
  | RTLSDR_TUNER_FC0012
  | RTLSDR_TUNER_FC0013
  | RTLSDR_TUNER_FC2580

text \<open>The functions of the tuner chip drivers that the wrappers of lines 62--98 call.\<close>

datatype driver_fn =
    e4000_Initialize | e4000_SetRfFreqHz | e4000_SetBandwidthHz
  | FC0012_Open | FC0012_SetFrequency
  | FC0013_Open | FC0013_SetFrequency
  | fc2580_Initialize | fc2580_SetRfFreqHz | fc2580_SetBandwidthMode

text \<open>A call through one of the five function pointers of \<^verbatim>\<open>rtlsdr_tuner_t\<close>.\<close>

datatype tuner_call =
    Call_init | Call_exit | Call_tune int | Call_set_bw int | Call_set_gain int

datatype event =
    ControlIn u16 u16 u8
      \<comment> \<open>\<^verbatim>\<open>libusb_control_transfer(devh, CTRL_IN, 0, wValue, wIndex, data, wLength, 0)\<close>\<close>
  | ControlOut u16 u16 "u8 list"
      \<comment> \<open>the same with \<^verbatim>\<open>CTRL_OUT\<close>: wValue, wIndex and the \<^verbatim>\<open>wLength\<close> bytes sent\<close>
  | TunerMethod rtlsdr_tuners tuner_call
      \<comment> \<open>a method of the bound tuner starts to run\<close>
  | DriverCall driver_fn "int list"
      \<comment> \<open>a chip driver function is called with these arguments (the handle apart)\<close>
  | UserCallback nat nat int nat
      \<comment> \<open>\<^verbatim>\<open>dev->cb(buffer, actual_length, cb_ctx)\<close>: callback, buffer, length, context\<close>
  | SubmitTransfer nat nat
      \<comment> \<open>\<^verbatim>\<open>libusb_submit_transfer\<close> of a descriptor, with the buffer it carries\<close>

text \<open>What \<^verbatim>\<open>rtlsdr_open\<close> and \<^verbatim>\<open>rtlsdr_close\<close> acquire and release.\<close>

datatype resource =
    HandleMemory        \<comment> \<open>\<^verbatim>\<open>malloc(sizeof(rtlsdr_dev_t))\<close>\<close>
  | UsbSession          \<comment> \<open>\<^verbatim>\<open>libusb_init\<close> / \<^verbatim>\<open>libusb_exit\<close>\<close>
  | DeviceList          \<comment> \<open>\<^verbatim>\<open>libusb_get_device_list\<close> / \<^verbatim>\<open>libusb_free_device_list\<close>\<close>
  | OpenDevice          \<comment> \<open>\<^verbatim>\<open>libusb_open\<close> / \<^verbatim>\<open>libusb_close\<close>\<close>
  | ClaimedInterface    \<comment> \<open>\<^verbatim>\<open>libusb_claim_interface\<close> / \<^verbatim>\<open>libusb_release_interface\<close>\<close>
  | TransferDescriptor nat  \<comment> \<open>\<^verbatim>\<open>libusb_alloc_transfer\<close> / \<^verbatim>\<open>libusb_free_transfer\<close>\<close>
  | TransferBuffer nat      \<comment> \<open>\<^verbatim>\<open>malloc(BUF_LENGTH)\<close> / \<^verbatim>\<open>free\<close>\<close>

text \<open>
  The data fields of \<^verbatim>\<open>rtlsdr_tuner_t\<close>. \<open>freq\<close> holds the 32 bits of the C \<^verbatim>\<open>int\<close>:
  the code stores a \<^verbatim>\<open>uint32_t\<close> into it and reads it back as one. \<open>corr\<close> and \<open>gain\<close>
  are only stored and compared, so they are plain integers.
\<close>

record rtlsdr_tuner =
  freq :: u32
  corr :: int
  gain :: int

text \<open>\<^verbatim>\<open>struct rtlsdr_dev\<close> (lines 140--150). A pointer is modelled by what it points to.\<close>

record rtlsdr_dev =
  ctx :: bool                     \<comment> \<open>a libusb session, or NULL\<close>
  devh :: "nat option"            \<comment> \<open>the opened device, by its place in the device list\<close>
  xfer :: "nat \<Rightarrow> bool"           \<comment> \<open>\<^verbatim>\<open>xfer[i]\<close> is not NULL\<close>
  xfer_buf :: "nat \<Rightarrow> bool"       \<comment> \<open>\<^verbatim>\<open>xfer_buf[i]\<close> is not NULL\<close>
  cb :: "nat option"              \<comment> \<open>the user callback, or NULL\<close>
  cb_ctx :: nat
  run_async :: int
  tuner :: "rtlsdr_tuners option" \<comment> \<open>points into \<^verbatim>\<open>tuners[]\<close>, or NULL\<close>
  rate :: int

text \<open>
  Everything a call can change besides the handle: the static table \<^verbatim>\<open>tuners[]\<close>
  (which \<^verbatim>\<open>dev->tuner\<close> points into), the trace of events, the resources held, and how
  many answers of each kind the collaborators have given so far.
\<close>

record world =
  tuners :: "rtlsdr_tuners \<Rightarrow> rtlsdr_tuner"
  trace :: "event list"
  held :: "resource set"
  n_i2c :: nat
  n_reg :: nat
  n_drv :: nat

text \<open>
  The collaborators' answers.
  \<^item> \<open>usb_init_ok\<close>: \<^verbatim>\<open>libusb_init\<close> stores a session in \<^verbatim>\<open>dev->ctx\<close>.
  \<^item> \<open>usb_devices\<close>: \<^verbatim>\<open>libusb_get_device_list\<close>; \<open>None\<close> is a negative count, otherwise
    the (idVendor, idProduct) of each device in bus order.
  \<^item> \<open>usb_open_status\<close>, \<open>usb_claim_status\<close>: what \<^verbatim>\<open>libusb_open\<close> and
    \<^verbatim>\<open>libusb_claim_interface\<close> return.
  \<^item> \<open>i2c_data n a r\<close>: the byte in \<^verbatim>\<open>data\<close> after the \<open>n\<close>-th call of
    \<^verbatim>\<open>rtlsdr_i2c_read_reg\<close>, made for I2C address \<open>a\<close> and register \<open>r\<close>.
  \<^item> \<open>reg_data n\<close>: the two bytes of \<^verbatim>\<open>data\<close> after the \<open>n\<close>-th call of \<^verbatim>\<open>rtlsdr_read_reg\<close>.
  \<^item> \<open>driver_status n\<close>: what the \<open>n\<close>-th chip driver call returns.
  \<^item> \<open>corrected_hz f c\<close>: the C value \<^verbatim>\<open>(int)((double) f * (1.0 + c / 1e6))\<close>.
  \<^item> \<open>punned_freq\<close>: what \<^verbatim>\<open>((rtlsdr_tuner_t *)dev)->freq\<close> reads when \<^verbatim>\<open>dev\<close> is the
    device handle (lines 77 and 89), as an \<^verbatim>\<open>unsigned long\<close>.
\<close>

record usb_env =
  usb_init_ok :: bool
  usb_devices :: "(u16 \<times> u16) list option"
  usb_open_status :: int
  usb_claim_status :: int
  i2c_data :: "nat \<Rightarrow> u8 \<Rightarrow> u8 \<Rightarrow> u8"
  reg_data :: "nat \<Rightarrow> u8 \<times> u8"
  driver_status :: "nat \<Rightarrow> int"
  corrected_hz :: "u32 \<Rightarrow> int \<Rightarrow> int"
  punned_freq :: nat

text \<open>Ways in which a call does not return: the C program has no defined behaviour.\<close>

datatype fault =
    NullDereference          \<comment> \<open>a field read through a NULL pointer\<close>
  | NullCall                 \<comment> \<open>a call through a NULL function pointer\<close>
  | ConversionOutOfRange     \<comment> \<open>a \<^verbatim>\<open>double\<close> converted to an integer type that cannot hold it\<close>

definition emit :: "event \<Rightarrow> world \<Rightarrow> world" where
  "emit e w = w\<lparr>trace := trace w @ [e]\<rparr>"

section \<open>Register protocol (lines 158--332)\<close>

text \<open>\<^verbatim>\<open>enum sys_reg\<close> and \<^verbatim>\<open>enum usb_reg\<close>, the members the model uses.\<close>

definition USB_SYSCTL :: u16 where "USB_SYSCTL = 0x2000"
definition USB_EPA_CTL :: u16 where "USB_EPA_CTL = 0x2148"
definition USB_EPA_MAXPKT :: u16 where "USB_EPA_MAXPKT = 0x2158"
definition DEMOD_CTL :: u16 where "DEMOD_CTL = 0x3000"
definition GPO :: u16 where "GPO = 0x3001"
definition GPOE :: u16 where "GPOE = 0x3003"
definition GPD :: u16 where "GPD = 0x3004"
definition DEMOD_CTL_1 :: u16 where "DEMOD_CTL_1 = 0x300b"

text \<open>\<^verbatim>\<open>enum blocks\<close>.\<close>

definition USBB :: u8 where "USBB = 1"
definition SYSB :: u8 where "SYSB = 2"
definition IICB :: u8 where "IICB = 6"

text \<open>
  \<^verbatim>\<open>rtlsdr_read_array\<close> and \<^verbatim>\<open>rtlsdr_write_array\<close> return the transfer's status; their
  one caller in this file, \<^verbatim>\<open>rtlsdr_i2c_read_reg\<close>, drops it, so the model keeps the
  transfer. \<^verbatim>\<open>uint16_t index = (block << 8)\<close>.
\<close>

definition rtlsdr_read_array :: "u8 \<Rightarrow> u16 \<Rightarrow> u8 \<Rightarrow> world \<Rightarrow> world" where
  "rtlsdr_read_array block addr len w =
     emit (ControlIn addr (push_bit 8 (ucast block)) len) w"

definition rtlsdr_write_array :: "u8 \<Rightarrow> u16 \<Rightarrow> u8 list \<Rightarrow> world \<Rightarrow> world" where
  "rtlsdr_write_array block addr array w =
     emit (ControlOut addr (push_bit 8 (ucast block) OR 0x10) array) w"

definition rtlsdr_i2c_read_reg :: "usb_env \<Rightarrow> u8 \<Rightarrow> u8 \<Rightarrow> world \<Rightarrow> u8 \<times> world" where
  "rtlsdr_i2c_read_reg env i2c_addr reg w =
     (let addr = ucast i2c_addr;
          w1 = rtlsdr_write_array IICB addr [reg] w;
          w2 = rtlsdr_read_array IICB addr 1 w1
      in (i2c_data env (n_i2c w) i2c_addr reg, w2\<lparr>n_i2c := Suc (n_i2c w)\<rparr>))"

text \<open>\<^verbatim>\<open>reg = (data[1] << 8) | data[0]\<close>; a failed transfer only prints a message.\<close>

definition rtlsdr_read_reg :: "usb_env \<Rightarrow> u8 \<Rightarrow> u16 \<Rightarrow> u8 \<Rightarrow> world \<Rightarrow> u16 \<times> world" where
  "rtlsdr_read_reg env block addr len w =
     (let index = push_bit 8 (ucast block);
          w1 = emit (ControlIn addr index len) w;
          (d0, d1) = reg_data env (n_reg w)
      in (push_bit 8 (ucast d1) OR ucast d0, w1\<lparr>n_reg := Suc (n_reg w)\<rparr>))"

text \<open>The two bytes \<^verbatim>\<open>data[0]\<close>, \<^verbatim>\<open>data[1]\<close> that both write functions build.\<close>

definition reg_payload :: "u16 \<Rightarrow> u8 \<Rightarrow> u8 list" where
  "reg_payload val len =
     take (unat len)
       [if len = 1 then ucast (val AND 0xff) else ucast (drop_bit 8 val),
        ucast (val AND 0xff)]"

definition rtlsdr_write_reg :: "u8 \<Rightarrow> u16 \<Rightarrow> u16 \<Rightarrow> u8 \<Rightarrow> world \<Rightarrow> world" where
  "rtlsdr_write_reg block addr val len w =
     emit (ControlOut addr (push_bit 8 (ucast block) OR 0x10) (reg_payload val len)) w"

text \<open>
  \<^verbatim>\<open>rtlsdr_demod_read_reg\<close> takes \<^verbatim>\<open>addr\<close> as a \<^verbatim>\<open>uint8_t\<close>, so
  \<^verbatim>\<open>addr = (addr << 8) | 0x20\<close> is cut back to eight bits. The register value it
  decodes is dropped by its only caller, \<^verbatim>\<open>rtlsdr_demod_write_reg\<close>.
\<close>

definition rtlsdr_demod_read_reg :: "u8 \<Rightarrow> u8 \<Rightarrow> u8 \<Rightarrow> world \<Rightarrow> world" where
  "rtlsdr_demod_read_reg page addr len w =
     (let index = ucast page :: u16;
          addr' = ucast (push_bit 8 (ucast addr) OR (0x20 :: u32)) :: u8
      in emit (ControlIn (ucast addr') index len) w)"

definition rtlsdr_demod_write_reg :: "u8 \<Rightarrow> u16 \<Rightarrow> u16 \<Rightarrow> u8 \<Rightarrow> world \<Rightarrow> world" where
  "rtlsdr_demod_write_reg page addr val len w =
     (let index = 0x10 OR ucast page;
          addr' = push_bit 8 addr OR 0x20;
          w1 = emit (ControlOut addr' index (reg_payload val len)) w
      in rtlsdr_demod_read_reg 0x0a 0x01 1 w1)"

definition rtlsdr_set_gpio_bit :: "usb_env \<Rightarrow> u8 \<Rightarrow> bool \<Rightarrow> world \<Rightarrow> world" where
  "rtlsdr_set_gpio_bit env gpio val w =
     (let gpio' = push_bit (unat gpio) 1 :: u8;
          (v, w1) = rtlsdr_read_reg env SYSB GPO 1 w;
          r = ucast v :: u8;
          r' = (if val then r OR gpio' else r AND NOT gpio')
      in rtlsdr_write_reg SYSB GPO (ucast r') 1 w1)"

definition rtlsdr_set_gpio_output :: "usb_env \<Rightarrow> u8 \<Rightarrow> world \<Rightarrow> world" where
  "rtlsdr_set_gpio_output env gpio w =
     (let gpio' = push_bit (unat gpio) 1 :: u8;
          (r, w1) = rtlsdr_read_reg env SYSB GPD 1 w;
          w2 = rtlsdr_write_reg SYSB GPO (r AND NOT (ucast gpio')) 1 w1;
          (r', w3) = rtlsdr_read_reg env SYSB GPOE 1 w2
      in rtlsdr_write_reg SYSB GPOE (r' OR ucast gpio') 1 w3)"

definition rtlsdr_set_i2c_repeater :: "bool \<Rightarrow> world \<Rightarrow> world" where
  "rtlsdr_set_i2c_repeater on w =
     rtlsdr_demod_write_reg 1 0x01 (if on then 0x18 else 0x10) 1 w"

section \<open>Tuner methods (lines 48--112)\<close>

text \<open>A chip driver function: the call is recorded and the driver's status returned.\<close>

definition driver_call :: "usb_env \<Rightarrow> driver_fn \<Rightarrow> int list \<Rightarrow> world \<Rightarrow> int \<times> world" where
  "driver_call env f args w =
     (driver_status env (n_drv w), (emit (DriverCall f args) w)\<lparr>n_drv := Suc (n_drv w)\<rparr>)"

text \<open>C's \<^verbatim>\<open>/\<close> on \<^verbatim>\<open>int\<close> truncates towards zero.\<close>

definition c_div :: "int \<Rightarrow> int \<Rightarrow> int" where
  "c_div a b = sgn a * sgn b * (\<bar>a\<bar> div \<bar>b\<bar>)"

definition e4k_init :: "usb_env \<Rightarrow> world \<Rightarrow> int \<times> world" where
  "e4k_init env w = driver_call env e4000_Initialize [] w"

definition e4k_exit :: "usb_env \<Rightarrow> world \<Rightarrow> int \<times> world" where
  "e4k_exit env w = (0, w)"

definition e4k_tune :: "usb_env \<Rightarrow> int \<Rightarrow> world \<Rightarrow> int \<times> world" where
  "e4k_tune env f w = driver_call env e4000_SetRfFreqHz [f] w"

definition e4k_set_bw :: "usb_env \<Rightarrow> int \<Rightarrow> world \<Rightarrow> int \<times> world" where
  "e4k_set_bw env bw w = driver_call env e4000_SetBandwidthHz [8000000] w"

definition e4k_set_gain :: "usb_env \<Rightarrow> int \<Rightarrow> world \<Rightarrow> int \<times> world" where
  "e4k_set_gain env g w = (0, w)"

definition fc0012_init :: "usb_env \<Rightarrow> world \<Rightarrow> int \<times> world" where
  "fc0012_init env w = driver_call env FC0012_Open [] w"

definition fc0012_exit :: "usb_env \<Rightarrow> world \<Rightarrow> int \<times> world" where
  "fc0012_exit env w = (0, w)"

definition fc0012_tune :: "usb_env \<Rightarrow> int \<Rightarrow> world \<Rightarrow> int \<times> world" where
  "fc0012_tune env f w =
     (let w1 = rtlsdr_set_gpio_bit env 6 (f > 300000000) w
      in driver_call env FC0012_SetFrequency [c_div f 1000, 6] w1)"

definition fc0012_set_bw :: "usb_env \<Rightarrow> int \<Rightarrow> world \<Rightarrow> int \<times> world" where
  "fc0012_set_bw env bw w =
     driver_call env FC0013_SetFrequency
       [int (punned_freq env div 1000), c_div bw 1000000] w"

definition fc0012_set_gain :: "usb_env \<Rightarrow> int \<Rightarrow> world \<Rightarrow> int \<times> world" where
  "fc0012_set_gain env g w = (0, w)"

definition fc0013_init :: "usb_env \<Rightarrow> world \<Rightarrow> int \<times> world" where
  "fc0013_init env w = driver_call env FC0013_Open [] w"

definition fc0013_exit :: "usb_env \<Rightarrow> world \<Rightarrow> int \<times> world" where
  "fc0013_exit env w = (0, w)"

definition fc0013_tune :: "usb_env \<Rightarrow> int \<Rightarrow> world \<Rightarrow> int \<times> world" where
  "fc0013_tune env f w = driver_call env FC0013_SetFrequency [c_div f 1000, 6] w"

definition fc0013_set_bw :: "usb_env \<Rightarrow> int \<Rightarrow> world \<Rightarrow> int \<times> world" where
  "fc0013_set_bw env bw w =
     driver_call env FC0013_SetFrequency
       [int (punned_freq env div 1000), c_div bw 1000000] w"

definition fc0013_set_gain :: "usb_env \<Rightarrow> int \<Rightarrow> world \<Rightarrow> int \<times> world" where
  "fc0013_set_gain env g w = (0, w)"

definition fc2580_init :: "usb_env \<Rightarrow> world \<Rightarrow> int \<times> world" where
  "fc2580_init env w = driver_call env fc2580_Initialize [] w"

definition fc2580_exit :: "usb_env \<Rightarrow> world \<Rightarrow> int \<times> world" where
  "fc2580_exit env w = (0, w)"

definition fc2580_tune :: "usb_env \<Rightarrow> int \<Rightarrow> world \<Rightarrow> int \<times> world" where
  "fc2580_tune env f w = driver_call env fc2580_SetRfFreqHz [f] w"

definition fc2580_set_bw :: "usb_env \<Rightarrow> int \<Rightarrow> world \<Rightarrow> int \<times> world" where
  "fc2580_set_bw env bw w = driver_call env fc2580_SetBandwidthMode [1] w"

definition fc2580_set_gain :: "usb_env \<Rightarrow> int \<Rightarrow> world \<Rightarrow> int \<times> world" where
  "fc2580_set_gain env g w = (0, w)"

text \<open>
  The table \<^verbatim>\<open>tuners[]\<close>, one function per column: a call through the pointer of tuner
  \<open>k\<close> is recorded, then the wrapper of that row runs.
\<close>

definition tuner_init :: "usb_env \<Rightarrow> rtlsdr_tuners \<Rightarrow> world \<Rightarrow> int \<times> world" where
  "tuner_init env k w =
     (let w1 = emit (TunerMethod k Call_init) w
      in case k of
           RTLSDR_TUNER_E4000 \<Rightarrow> e4k_init env w1
         | RTLSDR_TUNER_FC0012 \<Rightarrow> fc0012_init env w1
         | RTLSDR_TUNER_FC0013 \<Rightarrow> fc0013_init env w1
         | RTLSDR_TUNER_FC2580 \<Rightarrow> fc2580_init env w1)"

definition tuner_exit :: "usb_env \<Rightarrow> rtlsdr_tuners \<Rightarrow> world \<Rightarrow> int \<times> world" where
  "tuner_exit env k w =
     (let w1 = emit (TunerMethod k Call_exit) w
      in case k of
           RTLSDR_TUNER_E4000 \<Rightarrow> e4k_exit env w1
         | RTLSDR_TUNER_FC0012 \<Rightarrow> fc0012_exit env w1
         | RTLSDR_TUNER_FC0013 \<Rightarrow> fc0013_exit env w1
         | RTLSDR_TUNER_FC2580 \<Rightarrow> fc2580_exit env w1)"

definition tuner_tune :: "usb_env \<Rightarrow> rtlsdr_tuners \<Rightarrow> int \<Rightarrow> world \<Rightarrow> int \<times> world" where
  "tuner_tune env k f w =
     (let w1 = emit (TunerMethod k (Call_tune f)) w
      in case k of
           RTLSDR_TUNER_E4000 \<Rightarrow> e4k_tune env f w1
         | RTLSDR_TUNER_FC0012 \<Rightarrow> fc0012_tune env f w1
         | RTLSDR_TUNER_FC0013 \<Rightarrow> fc0013_tune env f w1
         | RTLSDR_TUNER_FC2580 \<Rightarrow> fc2580_tune env f w1)"

definition tuner_set_bw :: "usb_env \<Rightarrow> rtlsdr_tuners \<Rightarrow> int \<Rightarrow> world \<Rightarrow> int \<times> world" where
  "tuner_set_bw env k bw w =
     (let w1 = emit (TunerMethod k (Call_set_bw bw)) w
      in case k of
           RTLSDR_TUNER_E4000 \<Rightarrow> e4k_set_bw env bw w1
         | RTLSDR_TUNER_FC0012 \<Rightarrow> fc0012_set_bw env bw w1
         | RTLSDR_TUNER_FC0013 \<Rightarrow> fc0013_set_bw env bw w1
         | RTLSDR_TUNER_FC2580 \<Rightarrow> fc2580_set_bw env bw w1)"

definition tuner_set_gain :: "usb_env \<Rightarrow> rtlsdr_tuners \<Rightarrow> int \<Rightarrow> world \<Rightarrow> int \<times> world" where
  "tuner_set_gain env k g w =
     (let w1 = emit (TunerMethod k (Call_set_gain g)) w
      in case k of
           RTLSDR_TUNER_E4000 \<Rightarrow> e4k_set_gain env g w1
         | RTLSDR_TUNER_FC0012 \<Rightarrow> fc0012_set_gain env g w1
         | RTLSDR_TUNER_FC0013 \<Rightarrow> fc0013_set_gain env g w1
         | RTLSDR_TUNER_FC2580 \<Rightarrow> fc2580_set_gain env g w1)"

section \<open>Baseband (lines 360--423)\<close>

definition fir_coeff :: "u8 list" where
  "fir_coeff =
     [0xca, 0xdc, 0xd7, 0xd8, 0xe0, 0xf2, 0x0e, 0x35, 0x06, 0x50,
      0x9c, 0x0d, 0x71, 0x11, 0x14, 0x71, 0x74, 0x19, 0x41, 0x00]"

text \<open>The loop of lines 392--393 over the coefficients, \<open>i\<close> being its counter.\<close>

fun write_fir :: "nat \<Rightarrow> u8 list \<Rightarrow> world \<Rightarrow> world" where
  "write_fir i [] w = w"
| "write_fir i (c # cs) w =
     write_fir (Suc i) cs (rtlsdr_demod_write_reg 1 (0x1c + of_nat i) (ucast c) 1 w)"

definition rtlsdr_init_baseband :: "world \<Rightarrow> world" where
  "rtlsdr_init_baseband w0 =
     (let w = rtlsdr_write_reg USBB USB_SYSCTL 0x09 1 w0;
          w = rtlsdr_write_reg USBB USB_EPA_MAXPKT 0x0002 2 w;
          w = rtlsdr_write_reg USBB USB_EPA_CTL 0x1002 2 w;
          w = rtlsdr_write_reg SYSB DEMOD_CTL_1 0x22 1 w;
          w = rtlsdr_write_reg SYSB DEMOD_CTL 0xe8 1 w;
          w = rtlsdr_demod_write_reg 1 0x01 0x14 1 w;
          w = rtlsdr_demod_write_reg 1 0x01 0x10 1 w;
          w = rtlsdr_demod_write_reg 1 0x15 0x00 1 w;
          w = rtlsdr_demod_write_reg 1 0x16 0x0000 2 w;
          w = rtlsdr_demod_write_reg 1 0x19 0x0000 2 w;
          w = write_fir 0 fir_coeff w;
          w = rtlsdr_demod_write_reg 0 0x19 0x25 1 w;
          w = rtlsdr_demod_write_reg 1 0x93 0xf0 1 w;
          w = rtlsdr_demod_write_reg 1 0x11 0x00 1 w;
          w = rtlsdr_demod_write_reg 0 0x61 0x60 1 w;
          w = rtlsdr_demod_write_reg 0 0x06 0x80 1 w
      in rtlsdr_demod_write_reg 1 0xb1 0x1b 1 w)"

text \<open>
  \<^verbatim>\<open>dev->tuner->exit(dev)\<close> reads the method through \<^verbatim>\<open>dev->tuner\<close> with no test for
  NULL: with no tuner bound the call has no defined behaviour.
\<close>

definition rtlsdr_deinit_baseband :: "usb_env \<Rightarrow> rtlsdr_dev \<Rightarrow> world \<Rightarrow> fault + world" where
  "rtlsdr_deinit_baseband env dev w =
     (let w1 = rtlsdr_set_i2c_repeater True w
      in case tuner dev of
           None \<Rightarrow> Inl NullDereference
         | Some k \<Rightarrow>
             (let (r, w2) = tuner_exit env k w1;
                  w3 = rtlsdr_set_i2c_repeater False w2
              in Inr (rtlsdr_write_reg SYSB DEMOD_CTL 0x20 1 w3)))"

section \<open>Tuning, correction and gain (lines 425--501)\<close>

definition set_tuner_freq :: "rtlsdr_tuners \<Rightarrow> u32 \<Rightarrow> world \<Rightarrow> world" where
  "set_tuner_freq k v w = w\<lparr>tuners := (tuners w)(k := (tuners w k)\<lparr>freq := v\<rparr>)\<rparr>"

definition set_tuner_corr :: "rtlsdr_tuners \<Rightarrow> int \<Rightarrow> world \<Rightarrow> world" where
  "set_tuner_corr k v w = w\<lparr>tuners := (tuners w)(k := (tuners w k)\<lparr>corr := v\<rparr>)\<rparr>"

definition set_tuner_gain_field :: "rtlsdr_tuners \<Rightarrow> int \<Rightarrow> world \<Rightarrow> world" where
  "set_tuner_gain_field k v w = w\<lparr>tuners := (tuners w)(k := (tuners w k)\<lparr>gain := v\<rparr>)\<rparr>"

text \<open>
  The frequency handed to \<^verbatim>\<open>tune\<close> is computed in \<^verbatim>\<open>double\<close> and converted to
  \<^verbatim>\<open>int\<close>; it is the parameter \<open>corrected_hz\<close>.
\<close>

definition rtlsdr_set_center_freq ::
  "usb_env \<Rightarrow> rtlsdr_dev option \<Rightarrow> u32 \<Rightarrow> world \<Rightarrow> int \<times> world" where
  "rtlsdr_set_center_freq env dev fr w =
     (case dev of
        None \<Rightarrow> (-1, w)
      | Some d \<Rightarrow>
          (case tuner d of
             None \<Rightarrow> (-1, w)
           | Some k \<Rightarrow>
               (let w1 = rtlsdr_set_i2c_repeater True w;
                    f = corrected_hz env fr (corr (tuners w1 k));
                    (r, w2) = tuner_tune env k f w1;
                    w3 = rtlsdr_set_i2c_repeater False w2
                in (r, if r = 0 then set_tuner_freq k fr w3 else w3))))"

definition rtlsdr_get_center_freq :: "rtlsdr_dev option \<Rightarrow> world \<Rightarrow> int" where
  "rtlsdr_get_center_freq dev w =
     (case dev of
        None \<Rightarrow> -1
      | Some d \<Rightarrow> (case tuner d of None \<Rightarrow> -1 | Some k \<Rightarrow> sint (freq (tuners w k))))"

definition rtlsdr_set_freq_correction ::
  "usb_env \<Rightarrow> rtlsdr_dev option \<Rightarrow> int \<Rightarrow> world \<Rightarrow> int \<times> world" where
  "rtlsdr_set_freq_correction env dev ppm w =
     (case dev of
        None \<Rightarrow> (-1, w)
      | Some d \<Rightarrow>
          (case tuner d of
             None \<Rightarrow> (-1, w)
           | Some k \<Rightarrow>
               if corr (tuners w k) = ppm then (-1, w)
               else
                 (let w1 = set_tuner_corr k ppm w
                  in rtlsdr_set_center_freq env dev (freq (tuners w1 k)) w1)))"

definition rtlsdr_get_freq_correction :: "rtlsdr_dev option \<Rightarrow> world \<Rightarrow> int" where
  "rtlsdr_get_freq_correction dev w =
     (case dev of
        None \<Rightarrow> -1
      | Some d \<Rightarrow> (case tuner d of None \<Rightarrow> -1 | Some k \<Rightarrow> corr (tuners w k)))"

definition rtlsdr_set_tuner_gain ::
  "usb_env \<Rightarrow> rtlsdr_dev option \<Rightarrow> int \<Rightarrow> world \<Rightarrow> int \<times> world" where
  "rtlsdr_set_tuner_gain env dev g w =
     (case dev of
        None \<Rightarrow> (-1, w)
      | Some d \<Rightarrow>
          (case tuner d of
             None \<Rightarrow> (-1, w)
           | Some k \<Rightarrow>
               (let (r, w1) = tuner_set_gain env k g w
                in (r, if r = 0 then set_tuner_gain_field k g w1 else w1))))"

definition rtlsdr_get_tuner_gain :: "rtlsdr_dev option \<Rightarrow> world \<Rightarrow> int" where
  "rtlsdr_get_tuner_gain dev w =
     (case dev of
        None \<Rightarrow> -1
      | Some d \<Rightarrow> (case tuner d of None \<Rightarrow> -1 | Some k \<Rightarrow> gain (tuners w k)))"

section \<open>Sample rate (lines 503--541)\<close>

definition CRYSTAL_FREQ :: nat where "CRYSTAL_FREQ = 28800000"
definition MAX_SAMP_RATE :: u32 where "MAX_SAMP_RATE = 3200000"

text \<open>
  \<^verbatim>\<open>(CRYSTAL_FREQ * pow(2, 22)) / x\<close> is a \<^verbatim>\<open>double\<close> division of two integers that
  \<^verbatim>\<open>double\<close> holds exactly (the dividend is \<open>28125 * 2 ^ 32 < 2 ^ 53\<close>), then converted
  to an integer type, which truncates. For every divisor the code can meet here a quotient
  that is not an integer lies further from the next integer than half a unit in the last
  place, so rounding never reaches it and the converted value is the integer quotient.
  A quotient that does not fit the target type (or a division by zero, whose result is
  infinite) leaves the conversion without defined behaviour.
\<close>

definition quotient_to_uint32 :: "nat \<Rightarrow> nat \<Rightarrow> u32 option" where
  "quotient_to_uint32 n d =
     (if d = 0 \<or> 2 ^ 32 \<le> n div d then None else Some (of_nat (n div d)))"

definition quotient_to_int :: "nat \<Rightarrow> nat \<Rightarrow> int option" where
  "quotient_to_int n d =
     (if d = 0 \<or> 2 ^ 31 \<le> n div d then None else Some (int (n div d)))"

text \<open>Lines 513--517: the clamp, the ratio and \<^verbatim>\<open>rsamp_ratio &= ~3\<close>.\<close>

definition clamp_rate :: "u32 \<Rightarrow> u32" where
  "clamp_rate samp_rate = (if samp_rate > MAX_SAMP_RATE then MAX_SAMP_RATE else samp_rate)"

definition rsamp_ratio :: "u32 \<Rightarrow> u32 option" where
  "rsamp_ratio samp_rate =
     (case quotient_to_uint32 (CRYSTAL_FREQ * 2 ^ 22) (unat (clamp_rate samp_rate)) of
        None \<Rightarrow> None
      | Some q \<Rightarrow> Some (q AND NOT 3))"

definition rtlsdr_set_sample_rate ::
  "usb_env \<Rightarrow> rtlsdr_dev option \<Rightarrow> u32 \<Rightarrow> world \<Rightarrow> fault + (int \<times> rtlsdr_dev option \<times> world)" where
  "rtlsdr_set_sample_rate env dev samp_rate w =
     (case dev of
        None \<Rightarrow> Inr (-1, None, w)
      | Some d \<Rightarrow>
          (case rsamp_ratio samp_rate of
             None \<Rightarrow> Inl ConversionOutOfRange
           | Some ratio \<Rightarrow>
               (case (case tuner d of
                        None \<Rightarrow> Inr w
                      | Some k \<Rightarrow>
                          (case quotient_to_int (CRYSTAL_FREQ * 2 ^ 22) (unat ratio) of
                             None \<Rightarrow> Inl ConversionOutOfRange
                           | Some real_rate \<Rightarrow> Inr (snd (tuner_set_bw env k real_rate w)))) of
                  Inl f \<Rightarrow> Inl f
                | Inr w1 \<Rightarrow>
                    (let d' = d\<lparr>rate := uint (clamp_rate samp_rate)\<rparr>;
                         w2 = rtlsdr_demod_write_reg 1 0x9f (ucast (drop_bit 16 ratio)) 2 w1;
                         w3 = rtlsdr_demod_write_reg 1 0xa1 (ucast (ratio AND 0xffff)) 2 w2
                     in Inr (0, Some d', w3)))))"

definition rtlsdr_get_sample_rate :: "rtlsdr_dev option \<Rightarrow> int" where
  "rtlsdr_get_sample_rate dev = (case dev of None \<Rightarrow> -1 | Some d \<Rightarrow> rate d)"

section \<open>Device table and open (lines 114--135, 543--556, 620--733)\<close>

record rtlsdr_device =
  vid :: u16
  pid :: u16
  name :: string

definition devices :: "rtlsdr_device list" where
  "devices =
     [\<lparr>vid = 0x0bda, pid = 0x2832, name = ''Generic RTL2832U (e.g. hama nano)''\<rparr>,
      \<lparr>vid = 0x0bda, pid = 0x2838, name = ''ezcap USB 2.0 DVB-T/DAB/FM dongle''\<rparr>,
      \<lparr>vid = 0x0ccd, pid = 0x00a9, name = ''Terratec Cinergy T Stick Black (rev 1)''\<rparr>,
      \<lparr>vid = 0x0ccd, pid = 0x00b3, name = ''Terratec NOXON DAB/DAB+ USB dongle (rev 1)''\<rparr>,
      \<lparr>vid = 0x0ccd, pid = 0x00e0, name = ''Terratec NOXON DAB/DAB+ USB dongle (rev 2)''\<rparr>,
      \<lparr>vid = 0x1f4d, pid = 0xb803, name = ''GTek T803''\<rparr>,
      \<lparr>vid = 0x1f4d, pid = 0xc803, name = ''Lifeview LV5TDeluxe''\<rparr>,
      \<lparr>vid = 0x1b80, pid = 0xd3a4, name = ''Twintech UT-40''\<rparr>,
      \<lparr>vid = 0x1d19, pid = 0x1101, name = ''Dexatek DK DVB-T Dongle (Logilink VG0002A)''\<rparr>,
      \<lparr>vid = 0x1d19, pid = 0x1102, name = ''Dexatek DK DVB-T Dongle (MSI DigiVox mini II V3.0)''\<rparr>,
      \<lparr>vid = 0x0458, pid = 0x707f, name = ''Genius TVGo DVB-T03 USB dongle (Ver. B)''\<rparr>,
      \<lparr>vid = 0x1b80, pid = 0xd393, name = ''GIGABYTE GT-U7300''\<rparr>,
      \<lparr>vid = 0x1b80, pid = 0xd395, name = ''Peak 102569AGPK''\<rparr>,
      \<lparr>vid = 0x1b80, pid = 0xd39d, name = ''SVEON STV20 DVB-T USB & FM''\<rparr>]"

definition find_known_device :: "u16 \<Rightarrow> u16 \<Rightarrow> rtlsdr_device option" where
  "find_known_device v p = find (\<lambda>d. vid d = v \<and> pid d = p) devices"

text \<open>
  The loop of lines 639--652 over the device list: \<open>i\<close> is the place in the list,
  \<open>device_count\<close> the \<^verbatim>\<open>uint32_t\<close> counter; the result is the device the loop leaves
  in \<^verbatim>\<open>device\<close>, or NULL.
\<close>

fun select_device :: "u32 \<Rightarrow> u32 \<Rightarrow> nat \<Rightarrow> (u16 \<times> u16) list \<Rightarrow> nat option" where
  "select_device index device_count i [] = None"
| "select_device index device_count i (dd # rest) =
     (let device_count' =
            (case find_known_device (fst dd) (snd dd) of
               None \<Rightarrow> device_count
             | Some known \<Rightarrow> device_count + 1)
      in if index = device_count' - 1 then Some i
         else select_device index device_count' (Suc i) rest)"

text \<open>
  The identification constants come from the tuner drivers' headers, which are not part
  of the file: they are parameters.
\<close>

record tuner_ids =
  E4K_I2C_ADDR :: u8
  E4K_CHECK_ADDR :: u8
  E4K_CHECK_VAL :: u8
  FC0013_I2C_ADDR :: u8
  FC0013_CHECK_ADDR :: u8
  FC0013_CHECK_VAL :: u8
  FC2580_I2C_ADDR :: u8
  FC2580_CHECK_ADDR :: u8
  FC2580_CHECK_VAL :: u8
  FC0012_I2C_ADDR :: u8
  FC0012_CHECK_ADDR :: u8
  FC0012_CHECK_VAL :: u8

definition acquire :: "resource \<Rightarrow> world \<Rightarrow> world" where
  "acquire r w = w\<lparr>held := insert r (held w)\<rparr>"

definition release :: "resource \<Rightarrow> world \<Rightarrow> world" where
  "release r w = w\<lparr>held := held w - {r}\<rparr>"

text \<open>The handle after \<^verbatim>\<open>memset(dev, 0, sizeof(rtlsdr_dev_t))\<close>.\<close>

definition zeroed_dev :: rtlsdr_dev where
  "zeroed_dev =
     \<lparr>ctx = False, devh = None, xfer = (\<lambda>i. False), xfer_buf = (\<lambda>i. False),
      cb = None, cb_ctx = 0, run_async = 0, tuner = None, rate = 0\<rparr>"

text \<open>Lines 679--713, from the first probe to the label \<^verbatim>\<open>found\<close>.\<close>

definition probe_tuners :: "tuner_ids \<Rightarrow> usb_env \<Rightarrow> world \<Rightarrow> rtlsdr_tuners option \<times> world" where
  "probe_tuners ids env w =
     (let (reg, w1) = rtlsdr_i2c_read_reg env (E4K_I2C_ADDR ids) (E4K_CHECK_ADDR ids) w
      in if reg = E4K_CHECK_VAL ids then (Some RTLSDR_TUNER_E4000, w1)
         else
           (let (reg, w2) =
                  rtlsdr_i2c_read_reg env (FC0013_I2C_ADDR ids) (FC0013_CHECK_ADDR ids) w1
            in if reg = FC0013_CHECK_VAL ids then (Some RTLSDR_TUNER_FC0013, w2)
               else
                 (let w3 = rtlsdr_set_gpio_output env 5 w2;
                      w4 = rtlsdr_set_gpio_bit env 5 True w3;
                      w5 = rtlsdr_set_gpio_bit env 5 False w4;
                      (reg, w6) =
                        rtlsdr_i2c_read_reg env (FC2580_I2C_ADDR ids) (FC2580_CHECK_ADDR ids) w5
                  in if reg AND 0x7f = FC2580_CHECK_VAL ids then (Some RTLSDR_TUNER_FC2580, w6)
                     else
                       (let (reg, w7) =
                              rtlsdr_i2c_read_reg env (FC0012_I2C_ADDR ids)
                                (FC0012_CHECK_ADDR ids) w6
                        in if reg = FC0012_CHECK_VAL ids
                           then (Some RTLSDR_TUNER_FC0012, rtlsdr_set_gpio_output env 6 w7)
                           else (None, w7)))))"

text \<open>The label \<^verbatim>\<open>err\<close> (lines 724--732).\<close>

definition open_err :: "rtlsdr_dev \<Rightarrow> int \<Rightarrow> world \<Rightarrow> int \<times> rtlsdr_dev option \<times> world" where
  "open_err dev r w =
     (let w1 = (if ctx dev then release UsbSession w else w)
      in (r, None, release HandleMemory w1))"

definition rtlsdr_open ::
  "tuner_ids \<Rightarrow> usb_env \<Rightarrow> u32 \<Rightarrow> world \<Rightarrow> int \<times> rtlsdr_dev option \<times> world" where
  "rtlsdr_open ids env index w0 =
     (let w = acquire HandleMemory w0;
          (dev, w) =
            (if usb_init_ok env then (zeroed_dev\<lparr>ctx := True\<rparr>, acquire UsbSession w)
             else (zeroed_dev, w));
          (device, w) =
            (case usb_devices env of
               None \<Rightarrow> (None, w)
             | Some list \<Rightarrow> (select_device index 0 0 list, acquire DeviceList w))
      in case device of
           None \<Rightarrow> open_err dev (-1) w
         | Some i \<Rightarrow>
             if usb_open_status env < 0
             then open_err dev (usb_open_status env) (release DeviceList w)
             else
               (let dev = dev\<lparr>devh := Some i\<rparr>;
                    w = release DeviceList (acquire OpenDevice w)
                in if usb_claim_status env < 0 then open_err dev (usb_claim_status env) w
                   else
                     (let w = rtlsdr_init_baseband (acquire ClaimedInterface w);
                          w = rtlsdr_set_i2c_repeater True w;
                          (t, w) = probe_tuners ids env w;
                          dev = dev\<lparr>tuner := t\<rparr>;
                          w = (case t of None \<Rightarrow> w | Some k \<Rightarrow> snd (tuner_init env k w));
                          w = rtlsdr_set_i2c_repeater False w
                      in (0, Some dev, w))))"

section \<open>Close (lines 735--759)\<close>

definition BUF_COUNT :: nat where "BUF_COUNT = 32"

text \<open>The loop of lines 747--752, over the indices still to visit.\<close>

fun free_pool :: "rtlsdr_dev \<Rightarrow> nat list \<Rightarrow> world \<Rightarrow> world" where
  "free_pool dev [] w = w"
| "free_pool dev (i # rest) w =
     (let w1 = (if xfer dev i then release (TransferDescriptor i) w else w);
          w2 = (if xfer_buf dev i then release (TransferBuffer i) w1 else w1)
      in free_pool dev rest w2)"

definition rtlsdr_close :: "usb_env \<Rightarrow> rtlsdr_dev option \<Rightarrow> world \<Rightarrow> fault + (int \<times> world)" where
  "rtlsdr_close env dev w =
     (case dev of
        None \<Rightarrow> Inr (-1, w)
      | Some d \<Rightarrow>
          (case rtlsdr_deinit_baseband env d w of
             Inl f \<Rightarrow> Inl f
           | Inr w1 \<Rightarrow>
               (let w2 = release ClaimedInterface w1;
                    w3 = release OpenDevice w2;
                    w4 = free_pool d [0..<BUF_COUNT] w3;
                    w5 = release UsbSession w4
                in Inr (0, release HandleMemory w5))))"

section \<open>Streaming (lines 780--853)\<close>

datatype libusb_transfer_status =
    LIBUSB_TRANSFER_COMPLETED
  | LIBUSB_TRANSFER_ERROR
  | LIBUSB_TRANSFER_TIMED_OUT
  | LIBUSB_TRANSFER_CANCELLED
  | LIBUSB_TRANSFER_STALL
  | LIBUSB_TRANSFER_NO_DEVICE
  | LIBUSB_TRANSFER_OVERFLOW

text \<open>
  The fields of \<^verbatim>\<open>struct libusb_transfer\<close> the handler reads; \<open>descriptor\<close> says which
  descriptor it is. \<^verbatim>\<open>user_data\<close> is the device handle, passed beside it.
\<close>

record libusb_transfer =
  descriptor :: nat
  status :: libusb_transfer_status
  buffer :: nat
  actual_length :: int

text \<open>
  \<^verbatim>\<open>_libusb_callback\<close>. The user's callback is the user's code: the call is recorded,
  what it does is not part of the driver.
\<close>

definition libusb_callback :: "rtlsdr_dev \<Rightarrow> libusb_transfer \<Rightarrow> world \<Rightarrow> fault + world" where
  "libusb_callback dev transfer w =
     (if status transfer = LIBUSB_TRANSFER_COMPLETED
      then (case cb dev of
              None \<Rightarrow> Inl NullCall
            | Some f \<Rightarrow>
                (let w1 = emit (UserCallback f (buffer transfer) (actual_length transfer)
                                  (cb_ctx dev)) w
                 in Inr (emit (SubmitTransfer (descriptor transfer) (buffer transfer)) w1)))
      else Inr w)"

definition rtlsdr_cancel_async ::
  "rtlsdr_dev option \<Rightarrow> world \<Rightarrow> int \<times> rtlsdr_dev option \<times> world" where
  "rtlsdr_cancel_async dev w =
     (case dev of
        None \<Rightarrow> (-1, None, w)
      | Some d \<Rightarrow>
          if run_async d \<noteq> 0 then (0, Some (d\<lparr>run_async := 0\<rparr>), w)
          else (-2, Some d, w))"

text \<open>
  \<^verbatim>\<open>rtlsdr_wait_async\<close> (lines 793--840). What each call of
  \<^verbatim>\<open>libusb_handle_events_timeout\<close> brings is the collaborators' part: the transfers that
  complete during it (the place of the descriptor in the pool, its status and its actual
  length), whether \<^verbatim>\<open>rtlsdr_cancel_async\<close> is called on the handle while it runs (from the
  user's callback or from another thread), and the status it returns. The polls are given
  as a list; \<open>None\<close> says that the loop is still running when the list is used up.
  Allocations are taken to succeed, as in \<^verbatim>\<open>rtlsdr_open\<close>.
\<close>

record poll =
  completed :: "(nat \<times> libusb_transfer_status \<times> int) list"
  cancel_called :: bool
  poll_status :: int

text \<open>The loops of lines 803--808, 810--815 and 817--826, over the indices still to visit.\<close>

fun alloc_transfers :: "nat list \<Rightarrow> rtlsdr_dev \<Rightarrow> world \<Rightarrow> rtlsdr_dev \<times> world" where
  "alloc_transfers [] dev w = (dev, w)"
| "alloc_transfers (i # rest) dev w =
     (if xfer dev i then alloc_transfers rest dev w
      else alloc_transfers rest (dev\<lparr>xfer := (xfer dev)(i := True)\<rparr>)
             (acquire (TransferDescriptor i) w))"

fun alloc_buffers :: "nat list \<Rightarrow> rtlsdr_dev \<Rightarrow> world \<Rightarrow> rtlsdr_dev \<times> world" where
  "alloc_buffers [] dev w = (dev, w)"
| "alloc_buffers (i # rest) dev w =
     (if xfer_buf dev i then alloc_buffers rest dev w
      else alloc_buffers rest (dev\<lparr>xfer_buf := (xfer_buf dev)(i := True)\<rparr>)
             (acquire (TransferBuffer i) w))"

fun submit_transfers :: "nat list \<Rightarrow> world \<Rightarrow> world" where
  "submit_transfers [] w = w"
| "submit_transfers (i # rest) w = submit_transfers rest (emit (SubmitTransfer i i) w)"

text \<open>Lines 800--828: everything before the loop, up to \<^verbatim>\<open>dev->run_async = 1\<close>.\<close>

definition start_transfers ::
  "rtlsdr_dev \<Rightarrow> nat option \<Rightarrow> nat \<Rightarrow> world \<Rightarrow> rtlsdr_dev \<times> world" where
  "start_transfers dev0 callback context w0 =
     (let dev = dev0\<lparr>cb := callback, cb_ctx := context\<rparr>;
          (dev, w) = alloc_transfers [0..<BUF_COUNT] dev w0;
          (dev, w) = alloc_buffers [0..<BUF_COUNT] dev w;
          w = submit_transfers [0..<BUF_COUNT] w
      in (dev\<lparr>run_async := 1\<rparr>, w))"

text \<open>
  One call of \<^verbatim>\<open>libusb_handle_events_timeout\<close>: libusb runs \<^verbatim>\<open>_libusb_callback\<close> on each
  transfer that completed; descriptor \<open>i\<close> carries buffer \<open>i\<close>, as line 818 filled it.
\<close>

fun handle_events ::
  "rtlsdr_dev \<Rightarrow> (nat \<times> libusb_transfer_status \<times> int) list \<Rightarrow> world \<Rightarrow> fault + world" where
  "handle_events dev [] w = Inr w"
| "handle_events dev ((i, st, n) # rest) w =
     (case libusb_callback dev
             \<lparr>descriptor = i, status = st, buffer = i, actual_length = n\<rparr> w of
        Inl f \<Rightarrow> Inl f
      | Inr w1 \<Rightarrow> handle_events dev rest w1)"

text \<open>
  The loop of lines 830--837, entered with \<^verbatim>\<open>run_async\<close> set: one poll, then leave
  through \<^verbatim>\<open>break\<close> when its status is negative, otherwise test \<^verbatim>\<open>dev->run_async\<close> again.
\<close>

fun wait_loop ::
  "rtlsdr_dev \<Rightarrow> world \<Rightarrow> poll list \<Rightarrow> (fault + (int \<times> rtlsdr_dev option \<times> world)) option" where
  "wait_loop dev w [] = None"
| "wait_loop dev w (p # ps) =
     (case handle_events dev (completed p) w of
        Inl f \<Rightarrow> Some (Inl f)
      | Inr w1 \<Rightarrow>
          (let dev1 = (if cancel_called p
                       then (case rtlsdr_cancel_async (Some dev) w1 of
                               (r, Some d, w2) \<Rightarrow> d
                             | (r, None, w2) \<Rightarrow> dev)
                       else dev)
           in if poll_status p < 0 then Some (Inr (poll_status p, Some dev1, w1))
              else if run_async dev1 \<noteq> 0 then wait_loop dev1 w1 ps
              else Some (Inr (poll_status p, Some dev1, w1))))"

definition rtlsdr_wait_async ::
  "rtlsdr_dev option \<Rightarrow> nat option \<Rightarrow> nat \<Rightarrow> poll list \<Rightarrow> world \<Rightarrow>
     (fault + (int \<times> rtlsdr_dev option \<times> world)) option" where
  "rtlsdr_wait_async dev callback context polls w =
     (case dev of
        None \<Rightarrow> Some (Inr (-1, None, w))
      | Some d \<Rightarrow>
          (case start_transfers d callback context w of
             (d1, w1) \<Rightarrow> wait_loop d1 w1 polls))"

section \<open>An example bus\<close>

text \<open>
  The program at start: \<^verbatim>\<open>tuners[]\<close> as lines 107--112 initialise it, nothing sent and
  nothing held.
\<close>

definition initial_world :: world where
  "initial_world =
     \<lparr>tuners = (\<lambda>k. \<lparr>freq = 0, corr = 0, gain = 0\<rparr>), trace = [], held = {},
      n_i2c = 0, n_reg = 0, n_drv = 0\<rparr>"

text \<open>One assignment of the identification constants, for examples.\<close>

definition example_ids :: tuner_ids where
  "example_ids =
     \<lparr>E4K_I2C_ADDR = 0xc8, E4K_CHECK_ADDR = 0x02, E4K_CHECK_VAL = 0x40,
      FC0013_I2C_ADDR = 0xc6, FC0013_CHECK_ADDR = 0x00, FC0013_CHECK_VAL = 0xa3,
      FC2580_I2C_ADDR = 0xac, FC2580_CHECK_ADDR = 0x01, FC2580_CHECK_VAL = 0x56,
      FC0012_I2C_ADDR = 0xc6, FC0012_CHECK_ADDR = 0x00, FC0012_CHECK_VAL = 0xa1\<rparr>"

text \<open>
  A bus with one supported dongle, on which every libusb call succeeds; the I2C answers
  and the chip drivers' status are given.
\<close>

definition mock_env :: "(nat \<Rightarrow> u8 \<Rightarrow> u8 \<Rightarrow> u8) \<Rightarrow> int \<Rightarrow> usb_env" where
  "mock_env responder drv =
     \<lparr>usb_init_ok = True, usb_devices = Some [(0x0bda, 0x2832)],
      usb_open_status = 0, usb_claim_status = 0,
      i2c_data = responder, reg_data = (\<lambda>n. (0, 0)),
      driver_status = (\<lambda>n. drv), corrected_hz = (\<lambda>f c. uint f), punned_freq = 0\<rparr>"

definition silent_bus :: "nat \<Rightarrow> u8 \<Rightarrow> u8 \<Rightarrow> u8" where
  "silent_bus n a r = 0"

text \<open>
  Buses whose I2C answers carry the signature of the E4000 only, and of both the FC0013
  and the FC2580; the handles \<^verbatim>\<open>rtlsdr_open\<close> returns for a bound E4000 and for no
  tuner; the world \<^verbatim>\<open>rtlsdr_open\<close> leaves behind; a transfer that has completed.
\<close>

definition e4k_bus :: "nat \<Rightarrow> u8 \<Rightarrow> u8 \<Rightarrow> u8" where
  "e4k_bus n a r = (if a = 0xc8 \<and> r = 0x02 then 0x40 else 0)"

definition e4k_handle :: rtlsdr_dev where
  "e4k_handle = zeroed_dev\<lparr>ctx := True, devh := Some 0, tuner := Some RTLSDR_TUNER_E4000\<rparr>"

definition two_chip_bus :: "nat \<Rightarrow> u8 \<Rightarrow> u8 \<Rightarrow> u8" where
  "two_chip_bus n a r =
     (if a = 0xc6 \<and> r = 0x00 then 0xa3 else if a = 0xac \<and> r = 0x01 then 0x56 else 0)"

definition no_tuner_handle :: rtlsdr_dev where
  "no_tuner_handle = zeroed_dev\<lparr>ctx := True, devh := Some 0\<rparr>"

definition opened_world :: "usb_env \<Rightarrow> world" where
  "opened_world env = snd (snd (rtlsdr_open example_ids env 0 initial_world))"

definition done_transfer :: libusb_transfer where
  "done_transfer =
     \<lparr>descriptor = 7, status = LIBUSB_TRANSFER_COMPLETED, buffer = 7, actual_length = 262144\<rparr>"

text \<open>
  A bus like \<open>mock_env e4k_bus 0\<close> on which the chip driver succeeds twice (the
  initialisation and one tuning) and fails from then on, whatever the conversion of the
  corrected frequency yields; the world after tuning to 100 MHz on it, and after the
  attempt to set a correction of 5 ppm that follows.
\<close>

definition flaky_env :: "(u32 \<Rightarrow> int \<Rightarrow> int) \<Rightarrow> usb_env" where
  "flaky_env hz =
     (mock_env e4k_bus 0)\<lparr>driver_status := (\<lambda>n. if n < 2 then 0 else -1), corrected_hz := hz\<rparr>"

definition tuned_world :: "(u32 \<Rightarrow> int \<Rightarrow> int) \<Rightarrow> world" where
  "tuned_world hz =
     snd (rtlsdr_set_center_freq (flaky_env hz) (Some e4k_handle) 100000000
            (opened_world (flaky_env hz)))"

definition failed_world :: "(u32 \<Rightarrow> int \<Rightarrow> int) \<Rightarrow> world" where
  "failed_world hz =
     snd (rtlsdr_set_freq_correction (flaky_env hz) (Some e4k_handle) 5 (tuned_world hz))"

text \<open>
  Polls that bring no completed transfer: one that succeeds, one during which
  \<^verbatim>\<open>rtlsdr_cancel_async\<close> is called, and one that fails with a transport error. The
  handle and the world at the entry of the streaming loop.
\<close>

definition quiet_poll :: poll where
  "quiet_poll = \<lparr>completed = [], cancel_called = False, poll_status = 0\<rparr>"

definition cancel_poll :: poll where
  "cancel_poll = \<lparr>completed = [], cancel_called = True, poll_status = 0\<rparr>"

definition error_poll :: poll where
  "error_poll = \<lparr>completed = [], cancel_called = False, poll_status = -1\<rparr>"

definition streaming_handle :: rtlsdr_dev where
  "streaming_handle =
     fst (start_transfers e4k_handle (Some 7) 2 (opened_world (mock_env e4k_bus 0)))"

definition streaming_world :: world where
  "streaming_world =
     snd (start_transfers e4k_handle (Some 7) 2 (opened_world (mock_env e4k_bus 0)))"

section \<open>The I2C repeater gate, read off a trace\<close>

text \<open>
  The invariant of the specification: the repeater gate is open whenever a method of the
  tuner abstraction (or the chip driver function it calls) runs. The gate is bit 3 of
  demodulator register \<open>0x01\<close> on page 1, the register \<^verbatim>\<open>rtlsdr_set_i2c_repeater\<close> writes
  \<open>0x18\<close> or \<open>0x10\<close> to; \<open>gate_step\<close> follows it through one event, \<open>repeater_after\<close>
  through a trace, and \<open>gate_respected\<close> checks every event that needs the gate.
\<close>

definition gate_step :: "bool \<Rightarrow> event \<Rightarrow> bool" where
  "gate_step opn e =
     (case e of
        ControlOut a i d \<Rightarrow>
          (if a = 0x0120 \<and> i = 0x11 then (case d of [v] \<Rightarrow> bit v 3 | _ \<Rightarrow> opn) else opn)
      | _ \<Rightarrow> opn)"

definition needs_gate :: "event \<Rightarrow> bool" where
  "needs_gate e = (case e of TunerMethod k c \<Rightarrow> True | DriverCall f args \<Rightarrow> True | _ \<Rightarrow> False)"

fun repeater_after :: "bool \<Rightarrow> event list \<Rightarrow> bool" where
  "repeater_after opn [] = opn"
| "repeater_after opn (e # es) = repeater_after (gate_step opn e) es"

fun gate_respected :: "bool \<Rightarrow> event list \<Rightarrow> bool" where
  "gate_respected opn [] = True"
| "gate_respected opn (e # es) =
     ((opn \<or> \<not> needs_gate e) \<and> gate_respected (gate_step opn e) es)"


section \<open>The probing order of the specification\<close>

text \<open>
  Section 4.3 of the specification: the variants in their fixed priority order; when the
  answer to a variant's identification read is its signature (the \<open>n\<close>-th I2C register
  read being the first of the probing); and the bus traffic of the five steps of the
  probing, of which \<open>steps_taken\<close> are run for each outcome. The bytes written to the
  GPIO registers depend on what the registers held and are parameters of the script.
\<close>

definition priority_chain :: "rtlsdr_tuners list" where
  "priority_chain =
     [RTLSDR_TUNER_E4000, RTLSDR_TUNER_FC0013, RTLSDR_TUNER_FC2580, RTLSDR_TUNER_FC0012]"

fun signature_matches :: "tuner_ids \<Rightarrow> usb_env \<Rightarrow> nat \<Rightarrow> rtlsdr_tuners \<Rightarrow> bool" where
  "signature_matches ids env n RTLSDR_TUNER_E4000 =
     (i2c_data env n (E4K_I2C_ADDR ids) (E4K_CHECK_ADDR ids) = E4K_CHECK_VAL ids)"
| "signature_matches ids env n RTLSDR_TUNER_FC0013 =
     (i2c_data env (n + 1) (FC0013_I2C_ADDR ids) (FC0013_CHECK_ADDR ids) = FC0013_CHECK_VAL ids)"
| "signature_matches ids env n RTLSDR_TUNER_FC2580 =
     (i2c_data env (n + 2) (FC2580_I2C_ADDR ids) (FC2580_CHECK_ADDR ids) AND 0x7f
        = FC2580_CHECK_VAL ids)"
| "signature_matches ids env n RTLSDR_TUNER_FC0012 =
     (i2c_data env (n + 3) (FC0012_I2C_ADDR ids) (FC0012_CHECK_ADDR ids) = FC0012_CHECK_VAL ids)"

definition id_read :: "u8 \<Rightarrow> u8 \<Rightarrow> event list" where
  "id_read a r = [ControlOut (ucast a) 0x0610 [r], ControlIn (ucast a) 0x0600 1]"

definition pin_output :: "u8 \<Rightarrow> u8 \<Rightarrow> event list" where
  "pin_output out enable =
     [ControlIn GPD 0x0200 1, ControlOut GPO 0x0210 [out],
      ControlIn GPOE 0x0200 1, ControlOut GPOE 0x0210 [enable]]"

definition pin_write :: "u8 \<Rightarrow> event list" where
  "pin_write out = [ControlIn GPO 0x0200 1, ControlOut GPO 0x0210 [out]]"

definition probe_script ::
  "tuner_ids \<Rightarrow> u8 \<Rightarrow> u8 \<Rightarrow> u8 \<Rightarrow> u8 \<Rightarrow> u8 \<Rightarrow> u8 \<Rightarrow> event list list" where
  "probe_script ids o5 e5 hi lo o6 e6 =
     [id_read (E4K_I2C_ADDR ids) (E4K_CHECK_ADDR ids),
      id_read (FC0013_I2C_ADDR ids) (FC0013_CHECK_ADDR ids),
      pin_output o5 e5 @ pin_write hi @ pin_write lo @
        id_read (FC2580_I2C_ADDR ids) (FC2580_CHECK_ADDR ids),
      id_read (FC0012_I2C_ADDR ids) (FC0012_CHECK_ADDR ids),
      pin_output o6 e6]"

fun steps_taken :: "rtlsdr_tuners option \<Rightarrow> nat" where
  "steps_taken (Some RTLSDR_TUNER_E4000) = 1"
| "steps_taken (Some RTLSDR_TUNER_FC0013) = 2"
| "steps_taken (Some RTLSDR_TUNER_FC2580) = 3"
| "steps_taken None = 4"
| "steps_taken (Some RTLSDR_TUNER_FC0012) = 5"

section \<open>Sample rate: the resampling ratio\<close>

lemma three_mask: "(3::u32) = mask 2" by (simp add: mask_eq_exp_minus_1)

lemma split3: "(x AND NOT 3) + (x AND 3) = (x::u32)"
proof -
  have "(x AND NOT (mask 2)) + (x AND mask 2) = (x AND NOT (mask 2)) OR (x AND mask 2)"
    by (rule disjunctive_add) (auto simp add: bit_and_iff bit_not_iff bit_mask_iff)
  also have "\<dots> = x"
    by (rule bit_eqI) (auto simp add: bit_and_iff bit_or_iff bit_not_iff bit_mask_iff)
  finally show ?thesis by (simp only: three_mask)
qed

lemma and3_mod: "unat ((x::u32) AND 3) = unat x mod 4"
proof -
  have "unat (x AND 3) = unat (take_bit 2 x)" by (simp only: three_mask take_bit_eq_mask)
  also have "\<dots> = take_bit 2 (unat x)" by (rule unsigned_take_bit_eq)
  also have "\<dots> = unat x mod 4" by (simp add: take_bit_eq_mod)
  finally show ?thesis .
qed

lemma and_not3: "unat ((x::u32) AND NOT 3) = unat x - unat x mod 4"
proof -
  have "x AND NOT 3 = x - (x AND 3)" using split3 [of x] by (simp add: algebra_simps)
  moreover have "x AND 3 \<le> x" by (rule word_and_le2)
  ultimately show ?thesis by (simp add: unat_sub and3_mod)
qed

lemma quotient_fits:
  assumes "28125 < n" "n \<le> 3200000"
  shows "37748736 \<le> (120795955200000::nat) div n" "(120795955200000::nat) div n < 4294967296"
proof -
  have "(120795955200000::nat) div 3200000 \<le> 120795955200000 div n"
    using assms by (intro div_le_mono2) auto
  then show "37748736 \<le> (120795955200000::nat) div n" by simp
  have "(120795955200000::nat) < 4294967296 * n" using assms by simp
  then show "(120795955200000::nat) div n < 4294967296"
    using assms by (simp add: div_less_iff_less_mult)
qed

lemma ratio_bound:
  fixes n q :: nat
  assumes n: "0 < n" "n \<le> 3200000" and Q: "4 \<le> 120795955200000 div n"
    and q: "q = 120795955200000 div n - (120795955200000 div n) mod 4"
  shows "\<bar>real 120795955200000 / real q - real n\<bar> \<le> real 120795955200000 / real q / 2 ^ 20"
proof -
  define A :: nat where "A = 120795955200000"
  define Q where "Q = A div n"
  define m where "m = Q mod 4"
  have m: "m < 4" "m \<le> Q" by (simp_all add: m_def)
  have qm: "q = Q - m" using q by (simp add: Q_def A_def m_def)
  have Q4: "4 \<le> Q" using Q by (simp add: Q_def A_def)
  have qpos: "0 < q" using qm m Q4 by linarith
  have Qq: "Q = q + m" using qm m by linarith
  have nQ: "n * Q \<le> A" by (simp add: Q_def)
  have "A mod n < n" using n(1) by simp
  moreover have "A = n * Q + A mod n" by (simp add: Q_def)
  ultimately have AQ: "A < n * Q + n" by linarith
  have nQq: "n * Q = n * q + n * m" by (simp add: Qq distrib_left)
  have "n * m \<le> n * 3" using m(1) by (intro mult_le_mono2) linarith
  then have "A < n * q + 4 * n" using AQ nQq by linarith
  then have up: "A \<le> n * q + 115200000" using n(2) by linarith
  have le: "n * q \<le> A" using nQ nQq by linarith
  have "real A \<le> real (n * q + 115200000)" using up by (simp only: of_nat_le_iff)
  then have up': "real A \<le> real n * real q + 115200000" by simp
  have "real (n * q) \<le> real A" using le by (simp only: of_nat_le_iff)
  then have le': "real n * real q \<le> real A" by simp
  have rq: "0 < real q" using qpos by simp
  have "\<bar>real A / real q - real n\<bar> = (real A - real n * real q) / real q"
    using rq le' by (simp add: field_simps abs_if)
  also have "\<dots> \<le> 115200000 / real q"
    using rq up' by (intro divide_right_mono) simp_all
  also have "\<dots> = real A / real q / 2 ^ 20" by (simp add: A_def)
  finally show ?thesis by (simp add: A_def)
qed


lemma demod_write_trace:
  "trace (rtlsdr_demod_write_reg page addr val len w) =
     trace w @ [ControlOut (push_bit 8 addr OR 0x20) (0x10 OR ucast page) (reg_payload val len),
                ControlIn 0x20 0x0a 1]"
  by (simp add: rtlsdr_demod_write_reg_def rtlsdr_demod_read_reg_def emit_def)

lemma ff_mask: "(0xff::u16) = mask 8" "(0xffff::u32) = mask 16"
  by (simp_all add: mask_eq_exp_minus_1)

lemma low_byte: "(ucast ((v::u16) AND 0xff) :: u8) = ucast v"
  unfolding ff_mask by (rule bit_word_eqI) (auto simp add: bit_simps)

lemma payload2: "reg_payload v 2 = [ucast (drop_bit 8 v), ucast v]"
  by (simp add: reg_payload_def low_byte)

lemma payload_hi: "reg_payload (ucast (drop_bit 16 (q::u32))) 2 = [ucast (drop_bit 24 q), ucast (drop_bit 16 q)]"
  unfolding payload2
  apply simp
  apply (rule conjI; rule bit_word_eqI)
   apply (auto simp add: bit_simps)
  done

lemma payload_lo: "reg_payload (ucast ((q::u32) AND 0xffff)) 2 = [ucast (drop_bit 8 q), ucast q]"
  unfolding payload2 ff_mask
  apply simp
  apply (rule conjI; rule bit_word_eqI)
   apply (auto simp add: bit_simps)
  done


lemma clamp_rate_le: "unat r \<le> 3200000 \<Longrightarrow> clamp_rate r = r"
  by (simp add: clamp_rate_def MAX_SAMP_RATE_def word_less_nat_alt)

lemma clamp_rate_gt: "3200000 < unat r \<Longrightarrow> clamp_rate r = 3200000"
  by (simp add: clamp_rate_def MAX_SAMP_RATE_def word_less_nat_alt)

lemma rsamp_ratio_in_range:
  assumes "28125 < unat r" "unat r \<le> 3200000"
  shows "\<exists>q. rsamp_ratio r = Some q \<and>
           unat q = CRYSTAL_FREQ * 2 ^ 22 div unat r - (CRYSTAL_FREQ * 2 ^ 22 div unat r) mod 4"
proof -
  let ?Q = "(120795955200000::nat) div unat r"
  have fits: "37748736 \<le> ?Q" "?Q < 4294967296" using quotient_fits [OF assms] by auto
  have "unat (word_of_nat ?Q :: u32) = ?Q" using fits(2) by (simp add: unat_of_nat)
  then have "unat ((word_of_nat ?Q :: u32) AND NOT 3) = ?Q - ?Q mod 4" by (simp only: and_not3)
  moreover have "rsamp_ratio r = Some ((word_of_nat ?Q :: u32) AND NOT 3)"
    using assms fits
    by (simp add: rsamp_ratio_def quotient_to_uint32_def clamp_rate_le CRYSTAL_FREQ_def)
  ultimately show ?thesis by (simp add: CRYSTAL_FREQ_def)
qed

lemma real_rate_fits:
  assumes "37748733 \<le> unat (q::u32)"
  shows "quotient_to_int (CRYSTAL_FREQ * 2 ^ 22) (unat q)
           = Some (int (CRYSTAL_FREQ * 2 ^ 22 div unat q))"
proof -
  have "(120795955200000::nat) div unat q \<le> 120795955200000 div 37748733"
    using assms by (intro div_le_mono2) auto
  then have "(120795955200000::nat) div unat q < 2147483648" by simp
  then show ?thesis using assms by (simp add: quotient_to_int_def CRYSTAL_FREQ_def)
qed

lemma set_sample_rate_result:
  assumes "rsamp_ratio r = Some q" "37748733 \<le> unat q"
  shows "rtlsdr_set_sample_rate env (Some d) r w =
           Inr (0, Some (d\<lparr>rate := uint (clamp_rate r)\<rparr>),
                rtlsdr_demod_write_reg 1 0xa1 (ucast (q AND 0xffff)) 2
                  (rtlsdr_demod_write_reg 1 0x9f (ucast (drop_bit 16 q)) 2
                     (case tuner d of
                        None \<Rightarrow> w
                      | Some k \<Rightarrow>
                          snd (tuner_set_bw env k (int (CRYSTAL_FREQ * 2 ^ 22 div unat q)) w))))"
proof -
  have rr: "quotient_to_int (CRYSTAL_FREQ * 2 ^ 22) (unat q)
              = Some (int (CRYSTAL_FREQ * 2 ^ 22 div unat q))"
    using assms(2) by (rule real_rate_fits)
  show ?thesis
    using assms(1) rr [simplified]
    by (cases "tuner d") (simp_all add: rtlsdr_set_sample_rate_def)
qed

lemma ratio_writes_last:
  "drop (length (trace (rtlsdr_demod_write_reg 1 0xa1 (ucast (q AND 0xffff)) 2
                  (rtlsdr_demod_write_reg 1 0x9f (ucast (drop_bit 16 q)) 2 w))) - 4)
        (trace (rtlsdr_demod_write_reg 1 0xa1 (ucast ((q::u32) AND 0xffff)) 2
                  (rtlsdr_demod_write_reg 1 0x9f (ucast (drop_bit 16 q)) 2 w))) =
     [ControlOut 0x9f20 0x11 [ucast (drop_bit 24 q), ucast (drop_bit 16 q)],
      ControlIn 0x20 0x0a 1,
      ControlOut 0xa120 0x11 [ucast (drop_bit 8 q), ucast q],
      ControlIn 0x20 0x0a 1]"
  by (simp add: demod_write_trace payload_hi payload_lo)

text \<open>
  C5, as amended. For every requested rate \<open>r\<close> with \<open>28125 < r \<le> 3200000\<close>,
  \<^verbatim>\<open>rtlsdr_set_sample_rate\<close> computes the ratio \<open>floor (28800000 * 2^22 / r)\<close> with the
  low two bits cleared, so the ratio is a multiple of 4; the achieved rate
  \<open>28800000 * 2^22 / ratio\<close> is within \<open>achieved * 2^-20\<close> of \<open>r\<close>; the call returns 0,
  records \<open>r\<close> on the handle, and its last two register writes carry the ratio, high
  word then low word. (For \<open>r \<le> 28125\<close> the quotient does not fit the \<^verbatim>\<open>uint32_t\<close>.)
\<close>

theorem set_sample_rate_ratio:
  assumes lo: "28125 < unat r" and hi: "unat r \<le> 3200000"
  shows "\<exists>q w'. rsamp_ratio r = Some q \<and>
           unat q = CRYSTAL_FREQ * 2 ^ 22 div unat r - (CRYSTAL_FREQ * 2 ^ 22 div unat r) mod 4 \<and>
           4 dvd unat q \<and>
           \<bar>real (CRYSTAL_FREQ * 2 ^ 22) / real (unat q) - real (unat r)\<bar>
             \<le> real (CRYSTAL_FREQ * 2 ^ 22) / real (unat q) / 2 ^ 20 \<and>
           rtlsdr_set_sample_rate env (Some d) r w = Inr (0, Some (d\<lparr>rate := int (unat r)\<rparr>), w') \<and>
           drop (length (trace w') - 4) (trace w') =
             [ControlOut 0x9f20 0x11 [ucast (drop_bit 24 q), ucast (drop_bit 16 q)],
              ControlIn 0x20 0x0a 1,
              ControlOut 0xa120 0x11 [ucast (drop_bit 8 q), ucast q],
              ControlIn 0x20 0x0a 1]"
proof -
  let ?Q = "CRYSTAL_FREQ * 2 ^ 22 div unat r"
  obtain q where q: "rsamp_ratio r = Some q" "unat q = ?Q - ?Q mod 4"
    using rsamp_ratio_in_range [OF lo hi] by blast
  have fits: "37748736 \<le> ?Q" using quotient_fits(1) [OF lo hi] by (simp add: CRYSTAL_FREQ_def)
  have dvd: "4 dvd unat q" unfolding q(2) by (simp add: dvd_minus_mod)
  have "?Q mod 4 < 4" by simp
  then have big: "37748733 \<le> unat q" using fits q(2) by linarith
  have bound: "\<bar>real (CRYSTAL_FREQ * 2 ^ 22) / real (unat q) - real (unat r)\<bar>
             \<le> real (CRYSTAL_FREQ * 2 ^ 22) / real (unat q) / 2 ^ 20"
    using ratio_bound [of "unat r" "unat q"] lo hi fits q(2)
    by (simp add: CRYSTAL_FREQ_def)
  define w' where "w' = rtlsdr_demod_write_reg 1 0xa1 (ucast (q AND 0xffff)) 2
                  (rtlsdr_demod_write_reg 1 0x9f (ucast (drop_bit 16 q)) 2
                     (case tuner d of
                        None \<Rightarrow> w
                      | Some k \<Rightarrow>
                          snd (tuner_set_bw env k (int (CRYSTAL_FREQ * 2 ^ 22 div unat q)) w)))"
  have "uint (clamp_rate r) = int (unat r)" using hi by (simp add: clamp_rate_le)
  then have res: "rtlsdr_set_sample_rate env (Some d) r w
                    = Inr (0, Some (d\<lparr>rate := int (unat r)\<rparr>), w')"
    using set_sample_rate_result [OF q(1) big, of env d w] by (simp add: w'_def)
  have last4: "drop (length (trace w') - 4) (trace w') =
             [ControlOut 0x9f20 0x11 [ucast (drop_bit 24 q), ucast (drop_bit 16 q)],
              ControlIn 0x20 0x0a 1,
              ControlOut 0xa120 0x11 [ucast (drop_bit 8 q), ucast q],
              ControlIn 0x20 0x0a 1]"
    unfolding w'_def by (rule ratio_writes_last)
  show ?thesis using q dvd bound res last4 by blast
qed


text \<open>An instance of C5's theorem, at one million samples per second.\<close>

theorem set_sample_rate_ratio_witness:
  "28125 < unat (1000000 :: u32) \<and> unat (1000000 :: u32) \<le> 3200000 \<and>
   (\<exists>q w'. rsamp_ratio 1000000 = Some q \<and>
           unat q = CRYSTAL_FREQ * 2 ^ 22 div 1000000 - (CRYSTAL_FREQ * 2 ^ 22 div 1000000) mod 4 \<and>
           4 dvd unat q \<and>
           \<bar>real (CRYSTAL_FREQ * 2 ^ 22) / real (unat q) - 1000000\<bar>
             \<le> real (CRYSTAL_FREQ * 2 ^ 22) / real (unat q) / 2 ^ 20 \<and>
           rtlsdr_set_sample_rate (mock_env silent_bus 0) (Some zeroed_dev) 1000000 initial_world
             = Inr (0, Some (zeroed_dev\<lparr>rate := 1000000\<rparr>), w') \<and>
           drop (length (trace w') - 4) (trace w') =
             [ControlOut 0x9f20 0x11 [ucast (drop_bit 24 q), ucast (drop_bit 16 q)],
              ControlIn 0x20 0x0a 1,
              ControlOut 0xa120 0x11 [ucast (drop_bit 8 q), ucast q],
              ControlIn 0x20 0x0a 1])"
  using set_sample_rate_ratio [of 1000000 "mock_env silent_bus 0" zeroed_dev initial_world]
  by simp

text \<open>
  C5 as stated fails at \<open>r = 1\<close>: the quotient \<open>28125 * 2^32\<close> cannot be converted to
  \<^verbatim>\<open>uint32_t\<close>, so no ratio is defined.
\<close>

theorem set_sample_rate_low_rate_undefined:
  "rsamp_ratio 1 = None \<and>
   rtlsdr_set_sample_rate (mock_env silent_bus 0) (Some zeroed_dev) 1 initial_world
     = Inl ConversionOutOfRange"
  by (simp add: rtlsdr_set_sample_rate_def rsamp_ratio_def quotient_to_uint32_def
        clamp_rate_def MAX_SAMP_RATE_def CRYSTAL_FREQ_def)

section \<open>Sample rate: the example of 2048000 Hz\<close>

text \<open>C6 as stated fails: the ratio for 2048000 Hz is not 58982396.\<close>

theorem ratio_2048000_not_58982396: "rsamp_ratio 2048000 \<noteq> Some 58982396"
  by (simp add: rsamp_ratio_def quotient_to_uint32_def clamp_rate_def MAX_SAMP_RATE_def
        CRYSTAL_FREQ_def)

lemma rsamp_ratio_2048000: "rsamp_ratio 2048000 = Some 58982400"
  by (simp add: rsamp_ratio_def quotient_to_uint32_def clamp_rate_def MAX_SAMP_RATE_def
        CRYSTAL_FREQ_def)

text \<open>
  C6, as amended. \<^verbatim>\<open>rtlsdr_set_sample_rate(dev, 2048000)\<close> computes the ratio
  \<open>floor (28800000 * 4194304 / 2048000) = 58982400\<close>, which is a multiple of 4 already,
  and writes it as two 16-bit demodulator register writes, the high word \<open>0x0384\<close> to
  register \<open>0x9f\<close> and the low word \<open>0x0000\<close> to register \<open>0xa1\<close> of page 1; the achieved
  rate is 2048000 exactly.
\<close>

theorem set_sample_rate_2048000:
  "\<exists>w'. rsamp_ratio 2048000 = Some 58982400 \<and>
        rtlsdr_set_sample_rate env (Some d) 2048000 w
          = Inr (0, Some (d\<lparr>rate := 2048000\<rparr>), w') \<and>
        drop (length (trace w') - 4) (trace w') =
          [ControlOut 0x9f20 0x11 [0x03, 0x84], ControlIn 0x20 0x0a 1,
           ControlOut 0xa120 0x11 [0x00, 0x00], ControlIn 0x20 0x0a 1] \<and>
        real (CRYSTAL_FREQ * 2 ^ 22) / real (unat (58982400 :: u32)) = 2048000"
proof -
  have res: "rtlsdr_set_sample_rate env (Some d) 2048000 w =
           Inr (0, Some (d\<lparr>rate := uint (clamp_rate 2048000)\<rparr>),
                rtlsdr_demod_write_reg 1 0xa1 (ucast ((58982400 :: u32) AND 0xffff)) 2
                  (rtlsdr_demod_write_reg 1 0x9f (ucast (drop_bit 16 (58982400 :: u32))) 2
                     (case tuner d of
                        None \<Rightarrow> w
                      | Some k \<Rightarrow>
                          snd (tuner_set_bw env k
                                 (int (CRYSTAL_FREQ * 2 ^ 22 div unat (58982400 :: u32))) w))))"
    by (rule set_sample_rate_result [OF rsamp_ratio_2048000]) simp
  have cl: "uint (clamp_rate 2048000) = 2048000" by (simp add: clamp_rate_le)
  have pay: "[ucast (drop_bit 24 (58982400 :: u32)), ucast (drop_bit 16 (58982400 :: u32))]
               = [0x03, 0x84 :: u8]"
            "[ucast (drop_bit 8 (58982400 :: u32)), ucast (58982400 :: u32)] = [0, 0 :: u8]"
    by (simp_all add: drop_bit_eq_div)
  show ?thesis
    using rsamp_ratio_2048000 ratio_writes_last [of "58982400" , unfolded pay]
    unfolding res cl
    by (simp add: CRYSTAL_FREQ_def)
qed

section \<open>Sample rate: clamping\<close>

text \<open>
  C7. For every requested rate \<open>r > 3200000\<close>, \<^verbatim>\<open>rtlsdr_set_sample_rate(dev, r)\<close> does
  exactly what \<^verbatim>\<open>rtlsdr_set_sample_rate(dev, 3200000)\<close> does: the ratio it computes is
  that of the clamped rate, \<open>28800000 * 2^22 / 3200000 = 37748736\<close>; for a handle it
  returns 0, its last two register writes carry that ratio (high word \<open>0x0240\<close>, then low
  word \<open>0x0000\<close>), and it leaves 3200000 for \<^verbatim>\<open>rtlsdr_get_sample_rate\<close> to return.
\<close>

theorem set_sample_rate_clamps:
  assumes "3200000 < unat r"
  shows "rtlsdr_set_sample_rate env dev r w = rtlsdr_set_sample_rate env dev 3200000 w \<and>
         rsamp_ratio r = Some 37748736 \<and>
         (\<exists>w'. rtlsdr_set_sample_rate env (Some d) r w
                  = Inr (0, Some (d\<lparr>rate := 3200000\<rparr>), w') \<and>
               drop (length (trace w') - 4) (trace w') =
                 [ControlOut 0x9f20 0x11 [0x02, 0x40], ControlIn 0x20 0x0a 1,
                  ControlOut 0xa120 0x11 [0x00, 0x00], ControlIn 0x20 0x0a 1] \<and>
               rtlsdr_get_sample_rate (Some (d\<lparr>rate := 3200000\<rparr>)) = 3200000)"
proof -
  have c: "clamp_rate r = 3200000" using assms by (rule clamp_rate_gt)
  have c': "clamp_rate 3200000 = 3200000" by (simp add: clamp_rate_le)
  have rr: "rsamp_ratio r = rsamp_ratio 3200000" by (simp add: rsamp_ratio_def c c')
  have q': "rsamp_ratio 3200000 = Some 37748736"
    by (simp add: rsamp_ratio_def quotient_to_uint32_def c' CRYSTAL_FREQ_def)
  have q: "rsamp_ratio r = Some 37748736" by (simp only: rr q')
  have same: "rtlsdr_set_sample_rate env dev r w = rtlsdr_set_sample_rate env dev 3200000 w"
  proof (cases dev)
    case None
    then show ?thesis by (simp add: rtlsdr_set_sample_rate_def)
  next
    case (Some a)
    show ?thesis
      unfolding Some
      using set_sample_rate_result [OF q, of env a w] set_sample_rate_result [OF q', of env a w]
      by (simp add: c c')
  qed
  define w' where "w' = rtlsdr_demod_write_reg 1 0xa1 (ucast ((37748736 :: u32) AND 0xffff)) 2
                  (rtlsdr_demod_write_reg 1 0x9f (ucast (drop_bit 16 (37748736 :: u32))) 2
                     (case tuner d of
                        None \<Rightarrow> w
                      | Some k \<Rightarrow>
                          snd (tuner_set_bw env k
                                 (int (CRYSTAL_FREQ * 2 ^ 22 div unat (37748736 :: u32))) w)))"
  have big: "37748733 \<le> unat (37748736 :: u32)" by simp
  have res: "rtlsdr_set_sample_rate env (Some d) r w
               = Inr (0, Some (d\<lparr>rate := 3200000\<rparr>), w')"
    unfolding w'_def set_sample_rate_result [OF q big, of env d w] by (simp add: c)
  have pay: "[ucast (drop_bit 24 (37748736 :: u32)), ucast (drop_bit 16 (37748736 :: u32))]
               = [0x02, 0x40 :: u8]"
            "[ucast (drop_bit 8 (37748736 :: u32)), ucast (37748736 :: u32)] = [0, 0 :: u8]"
    by (simp_all add: drop_bit_eq_div)
  have last4: "drop (length (trace w') - 4) (trace w') =
                 [ControlOut 0x9f20 0x11 [0x02, 0x40], ControlIn 0x20 0x0a 1,
                  ControlOut 0xa120 0x11 [0x00, 0x00], ControlIn 0x20 0x0a 1]"
    unfolding w'_def using ratio_writes_last [of "37748736", unfolded pay] by simp
  have get: "rtlsdr_get_sample_rate (Some (d\<lparr>rate := 3200000\<rparr>)) = 3200000"
    by (simp add: rtlsdr_get_sample_rate_def)
  show ?thesis using same q res last4 get by blast
qed

text \<open>An instance of C7's theorem, at four million samples per second.\<close>

theorem set_sample_rate_clamps_witness:
  "3200000 < unat (4000000 :: u32) \<and>
   rtlsdr_set_sample_rate (mock_env silent_bus 0) (Some zeroed_dev) 4000000 initial_world
     = rtlsdr_set_sample_rate (mock_env silent_bus 0) (Some zeroed_dev) 3200000 initial_world \<and>
   rsamp_ratio 4000000 = Some 37748736 \<and>
   (\<exists>w'. rtlsdr_set_sample_rate (mock_env silent_bus 0) (Some zeroed_dev) 4000000 initial_world
            = Inr (0, Some (zeroed_dev\<lparr>rate := 3200000\<rparr>), w') \<and>
         drop (length (trace w') - 4) (trace w') =
           [ControlOut 0x9f20 0x11 [0x02, 0x40], ControlIn 0x20 0x0a 1,
            ControlOut 0xa120 0x11 [0x00, 0x00], ControlIn 0x20 0x0a 1] \<and>
         rtlsdr_get_sample_rate (Some (zeroed_dev\<lparr>rate := 3200000\<rparr>)) = 3200000)"
proof -
  have h: "3200000 < unat (4000000 :: u32)" by simp
  show ?thesis
    using h set_sample_rate_clamps [OF h, of "mock_env silent_bus 0" "Some zeroed_dev"
        initial_world zeroed_dev]
    by blast
qed

section \<open>What the register and tuner functions do to the world\<close>

lemma write_reg_eq:
  "rtlsdr_write_reg block addr val len w =
     w\<lparr>trace := trace w @ [ControlOut addr (push_bit 8 (ucast block) OR 0x10) (reg_payload val len)]\<rparr>"
  by (simp add: rtlsdr_write_reg_def emit_def)

lemma demod_write_eq:
  "rtlsdr_demod_write_reg page addr val len w =
     w\<lparr>trace := trace w @
        [ControlOut (push_bit 8 addr OR 0x20) (0x10 OR ucast page) (reg_payload val len),
         ControlIn 0x20 0x0a 1]\<rparr>"
  by (simp add: rtlsdr_demod_write_reg_def rtlsdr_demod_read_reg_def emit_def)

lemma repeater_eq:
  "rtlsdr_set_i2c_repeater on w =
     w\<lparr>trace := trace w @ [ControlOut 0x0120 0x11 [if on then 0x18 else 0x10], ControlIn 0x20 0x0a 1]\<rparr>"
  by (simp add: rtlsdr_set_i2c_repeater_def demod_write_eq reg_payload_def)

lemma read_reg_eq:
  "rtlsdr_read_reg env block addr len w =
     (push_bit 8 (ucast (snd (reg_data env (n_reg w)))) OR ucast (fst (reg_data env (n_reg w))),
      w\<lparr>trace := trace w @ [ControlIn addr (push_bit 8 (ucast block)) len],
        n_reg := Suc (n_reg w)\<rparr>)"
  by (simp add: rtlsdr_read_reg_def emit_def split: prod.splits)

lemma i2c_read_eq:
  "rtlsdr_i2c_read_reg env a r w =
     (i2c_data env (n_i2c w) a r,
      w\<lparr>trace := trace w @ [ControlOut (ucast a) 0x0610 [r], ControlIn (ucast a) 0x0600 1],
        n_i2c := Suc (n_i2c w)\<rparr>)"
  by (simp add: rtlsdr_i2c_read_reg_def rtlsdr_write_array_def rtlsdr_read_array_def emit_def IICB_def Let_def)

lemma driver_call_eq:
  "driver_call env f args w =
     (driver_status env (n_drv w),
      w\<lparr>trace := trace w @ [DriverCall f args], n_drv := Suc (n_drv w)\<rparr>)"
  by (simp add: driver_call_def emit_def)

lemma payload1: "reg_payload v 1 = [ucast v]"
  by (simp add: reg_payload_def low_byte)

lemma ucast_8_16_8: "(ucast (ucast (b::u8) :: u16) :: u8) = b"
  by (rule bit_word_eqI) (auto simp add: bit_simps)

lemma reg_low: "(ucast (push_bit 8 (ucast (d1::u8)) OR (ucast (d0::u8) :: u16)) :: u8) = d0"
  by (rule bit_word_eqI) (auto simp add: bit_simps)

lemma gpio_bit_eq:
  "rtlsdr_set_gpio_bit env gpio val w =
     w\<lparr>trace := trace w @
        [ControlIn GPO 0x0200 1,
         ControlOut GPO 0x0210
           [if val then fst (reg_data env (n_reg w)) OR push_bit (unat gpio) 1
            else fst (reg_data env (n_reg w)) AND NOT (push_bit (unat gpio) 1)]],
       n_reg := Suc (n_reg w)\<rparr>"
  by (simp add: rtlsdr_set_gpio_bit_def read_reg_eq write_reg_eq SYSB_def payload1
        ucast_8_16_8 reg_low)

lemma low_and_not:
  "(ucast ((push_bit 8 (ucast (d1::u8)) OR ucast (d0::u8)) AND NOT (ucast (g::u8)) :: u16) :: u8)
     = d0 AND NOT g"
  by (rule bit_word_eqI) (auto simp add: bit_simps)

lemma low_or:
  "(ucast ((push_bit 8 (ucast (d1::u8)) OR ucast (d0::u8)) OR ucast (g::u8) :: u16) :: u8)
     = d0 OR g"
  by (rule bit_word_eqI) (auto simp add: bit_simps)

lemma gpio_output_eq:
  "rtlsdr_set_gpio_output env gpio w =
     w\<lparr>trace := trace w @
        [ControlIn GPD 0x0200 1,
         ControlOut GPO 0x0210 [fst (reg_data env (n_reg w)) AND NOT (push_bit (unat gpio) 1)],
         ControlIn GPOE 0x0200 1,
         ControlOut GPOE 0x0210 [fst (reg_data env (Suc (n_reg w))) OR push_bit (unat gpio) 1]],
       n_reg := Suc (Suc (n_reg w))\<rparr>"
  by (simp add: rtlsdr_set_gpio_output_def read_reg_eq write_reg_eq SYSB_def payload1
        Let_def low_and_not low_or)


lemmas tuner_wrapper_defs =
  e4k_init_def e4k_exit_def e4k_tune_def e4k_set_bw_def e4k_set_gain_def
  fc0012_init_def fc0012_exit_def fc0012_tune_def fc0012_set_bw_def fc0012_set_gain_def
  fc0013_init_def fc0013_exit_def fc0013_tune_def fc0013_set_bw_def fc0013_set_gain_def
  fc2580_init_def fc2580_exit_def fc2580_tune_def fc2580_set_bw_def fc2580_set_gain_def

lemma tuner_tune_status: "fst (tuner_tune env k f w) = driver_status env (n_drv w)"
  by (cases k) (simp_all add: tuner_tune_def tuner_wrapper_defs driver_call_eq gpio_bit_eq emit_def Let_def)

lemma tuner_tune_tuners: "tuners (snd (tuner_tune env k f w)) = tuners w"
  by (cases k) (simp_all add: tuner_tune_def tuner_wrapper_defs driver_call_eq gpio_bit_eq emit_def Let_def)

lemma tuner_tune_first:
  "\<exists>es. trace (snd (tuner_tune env k f w)) = trace w @ TunerMethod k (Call_tune f) # es"
  by (cases k) (simp_all add: tuner_tune_def tuner_wrapper_defs driver_call_eq gpio_bit_eq emit_def Let_def)

lemma tuner_set_gain_eq:
  "tuner_set_gain env k g w = (0, w\<lparr>trace := trace w @ [TunerMethod k (Call_set_gain g)]\<rparr>)"
  by (cases k) (simp_all add: tuner_set_gain_def tuner_wrapper_defs emit_def)

lemma tuner_exit_eq:
  "tuner_exit env k w = (0, w\<lparr>trace := trace w @ [TunerMethod k Call_exit]\<rparr>)"
  by (cases k) (simp_all add: tuner_exit_def tuner_wrapper_defs emit_def)

lemma set_center_freq_bound:
  assumes "tuner d = Some k"
  shows "rtlsdr_set_center_freq env (Some d) fr w =
           (let w1 = rtlsdr_set_i2c_repeater True w;
                res = tuner_tune env k (corrected_hz env fr (corr (tuners w k))) w1;
                w3 = rtlsdr_set_i2c_repeater False (snd res)
            in (fst res, if fst res = 0 then set_tuner_freq k fr w3 else w3))"
  using assms
  by (simp add: rtlsdr_set_center_freq_def repeater_eq Let_def split: prod.splits)

lemma set_tuner_gain_bound:
  assumes "tuner d = Some k"
  shows "rtlsdr_set_tuner_gain env (Some d) g w =
           (0, set_tuner_gain_field k g (w\<lparr>trace := trace w @ [TunerMethod k (Call_set_gain g)]\<rparr>))"
  using assms by (simp add: rtlsdr_set_tuner_gain_def tuner_set_gain_eq)


lemma init_baseband_frame:
  "n_i2c (rtlsdr_init_baseband w) = n_i2c w \<and> n_reg (rtlsdr_init_baseband w) = n_reg w \<and>
   n_drv (rtlsdr_init_baseband w) = n_drv w \<and> held (rtlsdr_init_baseband w) = held w \<and>
   tuners (rtlsdr_init_baseband w) = tuners w"
  by (simp add: rtlsdr_init_baseband_def write_reg_eq demod_write_eq fir_coeff_def Let_def)

lemmas open_eval =
  rtlsdr_open_def mock_env_def find_known_device_def devices_def acquire_def release_def
  probe_tuners_def i2c_read_eq example_ids_def Let_def rtlsdr_init_baseband_def
  write_reg_eq demod_write_eq repeater_eq fir_coeff_def gpio_bit_eq gpio_output_eq
  tuner_init_def tuner_wrapper_defs driver_call_eq emit_def initial_world_def
  payload1 zeroed_dev_def

lemma open_e4k:
  "rtlsdr_open example_ids (mock_env e4k_bus s) 0 initial_world
     = (0, Some e4k_handle, opened_world (mock_env e4k_bus s))"
  by (simp add: opened_world_def prod_eq_iff)
     (simp add: rtlsdr_open_def mock_env_def find_known_device_def devices_def e4k_handle_def
        acquire_def release_def probe_tuners_def i2c_read_eq example_ids_def e4k_bus_def Let_def
        split: prod.splits)

lemma open_e4k_gate:
  "gate_respected False (trace (opened_world (mock_env e4k_bus s)))"
  "\<not> repeater_after False (trace (opened_world (mock_env e4k_bus s)))"
  by (simp_all add: opened_world_def open_eval e4k_bus_def gate_step_def needs_gate_def)

lemma open_no_tuner:
  "rtlsdr_open example_ids (mock_env silent_bus s) 0 initial_world
     = (0, Some no_tuner_handle, opened_world (mock_env silent_bus s))"
  by (simp add: opened_world_def prod_eq_iff)
     (simp add: rtlsdr_open_def mock_env_def find_known_device_def devices_def
        no_tuner_handle_def zeroed_dev_def acquire_def release_def probe_tuners_def i2c_read_eq
        example_ids_def silent_bus_def Let_def split: prod.splits)

lemma gate_respected_append:
  "gate_respected opn (es @ fs) =
     (gate_respected opn es \<and> gate_respected (repeater_after opn es) fs)"
  by (induction es arbitrary: opn) auto

lemma repeater_after_append:
  "repeater_after opn (es @ fs) = repeater_after (repeater_after opn es) fs"
  by (induction es arbitrary: opn) auto

section \<open>Degraded mode\<close>

text \<open>
  C1, on the code. On a bus whose I2C answers match no variant, \<^verbatim>\<open>rtlsdr_open\<close> returns 0
  and a handle with no tuner bound; \<^verbatim>\<open>rtlsdr_set_center_freq\<close>,
  \<^verbatim>\<open>rtlsdr_set_freq_correction\<close> and \<^verbatim>\<open>rtlsdr_set_tuner_gain\<close> on that handle return -1
  and change nothing; \<^verbatim>\<open>rtlsdr_close\<close> on it does not return an error: it reads the
  \<^verbatim>\<open>exit\<close> method through the NULL tuner pointer.
\<close>

theorem close_without_tuner_faults:
  "rtlsdr_open example_ids (mock_env silent_bus 0) 0 initial_world
     = (0, Some no_tuner_handle, opened_world (mock_env silent_bus 0)) \<and>
   tuner no_tuner_handle = None \<and>
   rtlsdr_set_center_freq (mock_env silent_bus 0) (Some no_tuner_handle) 100000000
       (opened_world (mock_env silent_bus 0))
     = (-1, opened_world (mock_env silent_bus 0)) \<and>
   rtlsdr_set_freq_correction (mock_env silent_bus 0) (Some no_tuner_handle) 5
       (opened_world (mock_env silent_bus 0))
     = (-1, opened_world (mock_env silent_bus 0)) \<and>
   rtlsdr_set_tuner_gain (mock_env silent_bus 0) (Some no_tuner_handle) 10
       (opened_world (mock_env silent_bus 0))
     = (-1, opened_world (mock_env silent_bus 0)) \<and>
   rtlsdr_close (mock_env silent_bus 0) (Some no_tuner_handle)
       (opened_world (mock_env silent_bus 0))
     = Inl NullDereference"
proof -
  have t: "tuner no_tuner_handle = None" by (simp add: no_tuner_handle_def zeroed_dev_def)
  show ?thesis
    using open_no_tuner [of 0] t
    by (simp add: rtlsdr_set_center_freq_def rtlsdr_set_freq_correction_def
          rtlsdr_set_tuner_gain_def rtlsdr_close_def rtlsdr_deinit_baseband_def)
qed

section \<open>The repeater gate around tuner methods\<close>

text \<open>
  C2, on the code. After \<^verbatim>\<open>rtlsdr_open\<close> has bound the E4000 the gate has been respected
  and is closed; \<^verbatim>\<open>rtlsdr_set_center_freq\<close> opens it, tunes and closes it again;
  \<^verbatim>\<open>rtlsdr_set_tuner_gain\<close> calls the tuner's \<^verbatim>\<open>set_gain\<close> and does nothing else on the
  bus, so the method runs with the gate closed; \<^verbatim>\<open>rtlsdr_set_sample_rate\<close> calls
  \<^verbatim>\<open>set_bw\<close> with the gate closed as well.
\<close>

theorem set_tuner_gain_skips_repeater:
  "rtlsdr_open example_ids (mock_env e4k_bus 0) 0 initial_world
     = (0, Some e4k_handle, opened_world (mock_env e4k_bus 0)) \<and>
   gate_respected False (trace (opened_world (mock_env e4k_bus 0))) \<and>
   \<not> repeater_after False (trace (opened_world (mock_env e4k_bus 0))) \<and>
   gate_respected False
     (trace (snd (rtlsdr_set_center_freq (mock_env e4k_bus 0) (Some e4k_handle) 100000000
                    (opened_world (mock_env e4k_bus 0))))) \<and>
   \<not> repeater_after False
     (trace (snd (rtlsdr_set_center_freq (mock_env e4k_bus 0) (Some e4k_handle) 100000000
                    (opened_world (mock_env e4k_bus 0))))) \<and>
   rtlsdr_set_tuner_gain (mock_env e4k_bus 0) (Some e4k_handle) 10
       (opened_world (mock_env e4k_bus 0))
     = (0, set_tuner_gain_field RTLSDR_TUNER_E4000 10
             ((opened_world (mock_env e4k_bus 0))
                \<lparr>trace := trace (opened_world (mock_env e4k_bus 0)) @
                            [TunerMethod RTLSDR_TUNER_E4000 (Call_set_gain 10)]\<rparr>)) \<and>
   \<not> gate_respected False
     (trace (snd (rtlsdr_set_tuner_gain (mock_env e4k_bus 0) (Some e4k_handle) 10
                    (opened_world (mock_env e4k_bus 0))))) \<and>
   (case rtlsdr_set_sample_rate (mock_env e4k_bus 0) (Some e4k_handle) 2048000
           (opened_world (mock_env e4k_bus 0)) of
      Inl f \<Rightarrow> False
    | Inr (r, d, w) \<Rightarrow> \<not> gate_respected False (trace w))"
proof -
  let ?E = "mock_env e4k_bus 0"
  let ?W = "opened_world ?E"
  have t: "tuner e4k_handle = Some RTLSDR_TUNER_E4000"
    by (simp add: e4k_handle_def)
  have gain: "rtlsdr_set_tuner_gain ?E (Some e4k_handle) 10 ?W =
           (0, set_tuner_gain_field RTLSDR_TUNER_E4000 10
                 (?W\<lparr>trace := trace ?W @ [TunerMethod RTLSDR_TUNER_E4000 (Call_set_gain 10)]\<rparr>))"
    by (rule set_tuner_gain_bound [OF t])
  have bad: "\<not> gate_respected False
     (trace (snd (rtlsdr_set_tuner_gain ?E (Some e4k_handle) 10 ?W)))"
    unfolding gain
    by (simp add: set_tuner_gain_field_def gate_respected_append open_e4k_gate needs_gate_def)
  have tune: "gate_respected False
       (trace (snd (rtlsdr_set_center_freq ?E (Some e4k_handle) 100000000 ?W)))"
    "\<not> repeater_after False
       (trace (snd (rtlsdr_set_center_freq ?E (Some e4k_handle) 100000000 ?W)))"
    by (simp_all add: set_center_freq_bound [OF t] Let_def repeater_eq tuner_tune_def
          tuner_wrapper_defs driver_call_eq emit_def set_tuner_freq_def
          gate_respected_append repeater_after_append open_e4k_gate
          gate_step_def needs_gate_def)
  have q: "rsamp_ratio 2048000 = Some 58982400" by (rule rsamp_ratio_2048000)
  have rate: "case rtlsdr_set_sample_rate ?E (Some e4k_handle) 2048000 ?W of
      Inl f \<Rightarrow> False
    | Inr (r, d, w) \<Rightarrow> \<not> gate_respected False (trace w)"
    unfolding set_sample_rate_result [OF q, of ?E e4k_handle ?W, simplified]
    by (simp add: t demod_write_eq tuner_set_bw_def tuner_wrapper_defs driver_call_eq emit_def
          gate_respected_append open_e4k_gate needs_gate_def)
  show ?thesis
    using open_e4k [of 0] open_e4k_gate [of 0] tune gain bad rate by blast
qed

section \<open>Resources on the error paths of open\<close>

text \<open>
  C3, on the code. With an empty bus \<^verbatim>\<open>rtlsdr_open\<close> returns -1 and still holds the device
  list; when claiming the interface fails it returns that status and still holds the
  opened device; when opening the device fails it returns that status holding nothing.
\<close>

theorem open_error_paths_leak:
  "rtlsdr_open example_ids ((mock_env silent_bus 0)\<lparr>usb_devices := Some []\<rparr>) 0 initial_world
     = (-1, None, initial_world\<lparr>held := {DeviceList}\<rparr>) \<and>
   rtlsdr_open example_ids ((mock_env silent_bus 0)\<lparr>usb_claim_status := -6\<rparr>) 0 initial_world
     = (-6, None, initial_world\<lparr>held := {OpenDevice}\<rparr>) \<and>
   rtlsdr_open example_ids ((mock_env silent_bus 0)\<lparr>usb_open_status := -3\<rparr>) 0 initial_world
     = (-3, None, initial_world)"
  by (auto simp add: rtlsdr_open_def mock_env_def find_known_device_def devices_def
      acquire_def release_def open_err_def zeroed_dev_def initial_world_def Let_def)

section \<open>The completion handler\<close>

text \<open>
  C4. When a transfer completes with status "completed" (and the handle has a callback),
  \<^verbatim>\<open>_libusb_callback\<close> calls the user callback with the transfer's buffer, its actual
  length and the handle's context, then submits the same descriptor with the same buffer,
  and does nothing else: nothing is allocated, freed or exchanged. With any other status
  it does nothing at all.
\<close>

theorem libusb_callback_completed:
  "(status t = LIBUSB_TRANSFER_COMPLETED \<and> cb dev = Some f \<longrightarrow>
      libusb_callback dev t w =
        Inr (w\<lparr>trace := trace w @
               [UserCallback f (buffer t) (actual_length t) (cb_ctx dev),
                SubmitTransfer (descriptor t) (buffer t)]\<rparr>)) \<and>
   (status t \<noteq> LIBUSB_TRANSFER_COMPLETED \<longrightarrow> libusb_callback dev t w = Inr w)"
  by (simp add: libusb_callback_def emit_def)

text \<open>An instance of C4's theorem: one completed and one timed-out transfer.\<close>

theorem libusb_callback_completed_witness:
  "libusb_callback (e4k_handle\<lparr>cb := Some 1, cb_ctx := 2\<rparr>) done_transfer initial_world =
     Inr (initial_world\<lparr>trace := [UserCallback 1 7 262144 2, SubmitTransfer 7 7]\<rparr>) \<and>
   libusb_callback (e4k_handle\<lparr>cb := Some 1, cb_ctx := 2\<rparr>)
       (done_transfer\<lparr>status := LIBUSB_TRANSFER_TIMED_OUT\<rparr>) initial_world =
     Inr initial_world"
  using libusb_callback_completed [of done_transfer "e4k_handle\<lparr>cb := Some 1, cb_ctx := 2\<rparr>" 1
          initial_world]
        libusb_callback_completed [of "done_transfer\<lparr>status := LIBUSB_TRANSFER_TIMED_OUT\<rparr>"
          "e4k_handle\<lparr>cb := Some 1, cb_ctx := 2\<rparr>" 1 initial_world]
  by (simp add: done_transfer_def initial_world_def)

section \<open>Cancelling\<close>

lemma cancel_async_by_flag:
  "rtlsdr_cancel_async None w = (-1, None, w)"
  "run_async d = 0 \<Longrightarrow> rtlsdr_cancel_async (Some d) w = (-2, Some d, w)"
  "run_async d \<noteq> 0 \<Longrightarrow> rtlsdr_cancel_async (Some d) w = (0, Some (d\<lparr>run_async := 0\<rparr>), w)"
  by (simp_all add: rtlsdr_cancel_async_def)

lemma start_streaming:
  "start_transfers e4k_handle (Some 7) 2 (opened_world (mock_env e4k_bus 0))
     = (streaming_handle, streaming_world)"
  by (simp add: streaming_handle_def streaming_world_def)

lemma streaming_handle_flag: "run_async streaming_handle = 1"
  by (simp add: streaming_handle_def start_transfers_def Let_def split: prod.splits)

text \<open>
  C10, on the code. \<^verbatim>\<open>rtlsdr_cancel_async\<close> returns -1 for a NULL handle and -2, with no
  change, for a handle that never streamed. Called while the loop of
  \<^verbatim>\<open>rtlsdr_wait_async\<close> runs it clears \<^verbatim>\<open>run_async\<close>, the loop ends and later calls
  return -2. It never touches the world: it makes no libusb call, so it cancels no
  transfer. But when the loop ends on a transport error, \<^verbatim>\<open>rtlsdr_wait_async\<close> returns
  with \<^verbatim>\<open>run_async\<close> still 1: on that handle, which is not streaming,
  \<^verbatim>\<open>rtlsdr_cancel_async\<close> returns 0 and clears the flag.
\<close>

theorem cancel_after_transport_error:
  "rtlsdr_cancel_async None (opened_world (mock_env e4k_bus 0))
     = (-1, None, opened_world (mock_env e4k_bus 0)) \<and>
   rtlsdr_cancel_async (Some e4k_handle) (opened_world (mock_env e4k_bus 0))
     = (-2, Some e4k_handle, opened_world (mock_env e4k_bus 0)) \<and>
   rtlsdr_wait_async (Some e4k_handle) (Some 7) 2 [quiet_poll, cancel_poll]
       (opened_world (mock_env e4k_bus 0))
     = Some (Inr (0, Some (streaming_handle\<lparr>run_async := 0\<rparr>), streaming_world)) \<and>
   rtlsdr_cancel_async (Some (streaming_handle\<lparr>run_async := 0\<rparr>)) streaming_world
     = (-2, Some (streaming_handle\<lparr>run_async := 0\<rparr>), streaming_world) \<and>
   rtlsdr_wait_async (Some e4k_handle) (Some 7) 2 [quiet_poll, error_poll]
       (opened_world (mock_env e4k_bus 0))
     = Some (Inr (-1, Some streaming_handle, streaming_world)) \<and>
   run_async streaming_handle = 1 \<and>
   rtlsdr_cancel_async (Some streaming_handle) streaming_world
     = (0, Some (streaming_handle\<lparr>run_async := 0\<rparr>), streaming_world)"
proof -
  have idle: "run_async e4k_handle = 0" by (simp add: e4k_handle_def zeroed_dev_def)
  have cancelled: "rtlsdr_wait_async (Some e4k_handle) (Some 7) 2 [quiet_poll, cancel_poll]
       (opened_world (mock_env e4k_bus 0))
     = Some (Inr (0, Some (streaming_handle\<lparr>run_async := 0\<rparr>), streaming_world))"
    by (simp add: rtlsdr_wait_async_def start_streaming quiet_poll_def cancel_poll_def
          streaming_handle_flag cancel_async_by_flag)
  have failed: "rtlsdr_wait_async (Some e4k_handle) (Some 7) 2 [quiet_poll, error_poll]
       (opened_world (mock_env e4k_bus 0))
     = Some (Inr (-1, Some streaming_handle, streaming_world))"
    by (simp add: rtlsdr_wait_async_def start_streaming quiet_poll_def error_poll_def
          streaming_handle_flag)
  show ?thesis
    using cancelled failed streaming_handle_flag
    by (simp add: cancel_async_by_flag idle)
qed


section \<open>Frequency correction\<close>

lemma e4k_set_center_freq:
  "rtlsdr_set_center_freq env (Some e4k_handle) fr w =
     (driver_status env (n_drv w),
      (if driver_status env (n_drv w) = 0 then set_tuner_freq RTLSDR_TUNER_E4000 fr else id)
        (w\<lparr>trace := trace w @
             [ControlOut 0x0120 0x11 [0x18], ControlIn 0x20 0x0a 1,
              TunerMethod RTLSDR_TUNER_E4000
                (Call_tune (corrected_hz env fr (corr (tuners w RTLSDR_TUNER_E4000)))),
              DriverCall e4000_SetRfFreqHz
                [corrected_hz env fr (corr (tuners w RTLSDR_TUNER_E4000))],
              ControlOut 0x0120 0x11 [0x10], ControlIn 0x20 0x0a 1],
           n_drv := Suc (n_drv w)\<rparr>))"
  by (simp add: rtlsdr_set_center_freq_def e4k_handle_def repeater_eq tuner_tune_def
        e4k_tune_def driver_call_eq emit_def Let_def set_tuner_freq_def)

lemma open_flaky:
  "rtlsdr_open example_ids (flaky_env hz) 0 initial_world
     = (0, Some e4k_handle, opened_world (flaky_env hz))"
  by (simp add: opened_world_def prod_eq_iff)
     (simp add: rtlsdr_open_def flaky_env_def mock_env_def find_known_device_def devices_def
        e4k_handle_def acquire_def release_def probe_tuners_def i2c_read_eq example_ids_def
        e4k_bus_def Let_def split: prod.splits)

lemma open_flaky_world:
  "tuners (opened_world (flaky_env hz)) = tuners initial_world"
  "n_drv (opened_world (flaky_env hz)) = 1"
  by (simp_all add: opened_world_def flaky_env_def open_eval e4k_bus_def)

lemma flaky_env_fields:
  "driver_status (flaky_env hz) n = (if n < 2 then 0 else -1)"
  "corrected_hz (flaky_env hz) = hz"
  by (simp_all add: flaky_env_def mock_env_def)

lemma tuned_world_fields:
  "rtlsdr_set_center_freq (flaky_env hz) (Some e4k_handle) 100000000 (opened_world (flaky_env hz))
     = (0, tuned_world hz)"
  "tuners (tuned_world hz) RTLSDR_TUNER_E4000 = \<lparr>freq = 100000000, corr = 0, gain = 0\<rparr>"
  "n_drv (tuned_world hz) = 2"
  by (simp_all add: tuned_world_def e4k_set_center_freq open_flaky_world flaky_env_fields
        set_tuner_freq_def initial_world_def)

text \<open>
  C9, on the code. A handle with the E4000 bound is tuned to 100 MHz, correction 0. A call of
  \<^verbatim>\<open>rtlsdr_set_freq_correction\<close> with 5 ppm whose retune fails returns -1, having
  retuned with the new correction; the cached frequency is unchanged, but the cached
  correction is 5, not 0. Calling it again with 5 ppm is refused as unchanged: it returns
  -1 without retuning.
\<close>

theorem failed_retune_leaves_correction_stored:
  "rtlsdr_open example_ids (flaky_env hz) 0 initial_world
     = (0, Some e4k_handle, opened_world (flaky_env hz)) \<and>
   rtlsdr_set_center_freq (flaky_env hz) (Some e4k_handle) 100000000 (opened_world (flaky_env hz))
     = (0, tuned_world hz) \<and>
   rtlsdr_get_center_freq (Some e4k_handle) (tuned_world hz) = 100000000 \<and>
   rtlsdr_get_freq_correction (Some e4k_handle) (tuned_world hz) = 0 \<and>
   rtlsdr_set_freq_correction (flaky_env hz) (Some e4k_handle) 5 (tuned_world hz)
     = (-1, failed_world hz) \<and>
   TunerMethod RTLSDR_TUNER_E4000 (Call_tune (hz 100000000 5)) \<in> set (trace (failed_world hz)) \<and>
   rtlsdr_get_center_freq (Some e4k_handle) (failed_world hz) = 100000000 \<and>
   rtlsdr_get_freq_correction (Some e4k_handle) (failed_world hz) = 5 \<and>
   rtlsdr_set_freq_correction (flaky_env hz) (Some e4k_handle) 5 (failed_world hz)
     = (-1, failed_world hz)"
proof -
  let ?E = "flaky_env hz"
  have t: "tuner e4k_handle = Some RTLSDR_TUNER_E4000" by (simp add: e4k_handle_def)
  have step: "rtlsdr_set_freq_correction ?E (Some e4k_handle) 5 (tuned_world hz) =
          rtlsdr_set_center_freq ?E (Some e4k_handle) 100000000
            (set_tuner_corr RTLSDR_TUNER_E4000 5 (tuned_world hz))"
    by (simp add: rtlsdr_set_freq_correction_def t tuned_world_fields set_tuner_corr_def Let_def)
  have st: "fst (rtlsdr_set_freq_correction ?E (Some e4k_handle) 5 (tuned_world hz)) = -1"
    unfolding step
    by (simp add: e4k_set_center_freq set_tuner_corr_def tuned_world_fields flaky_env_fields)
  have res: "rtlsdr_set_freq_correction ?E (Some e4k_handle) 5 (tuned_world hz)
               = (-1, failed_world hz)"
    using st by (simp add: failed_world_def prod_eq_iff)
  have fw: "tuners (failed_world hz) RTLSDR_TUNER_E4000 = \<lparr>freq = 100000000, corr = 5, gain = 0\<rparr>"
    "TunerMethod RTLSDR_TUNER_E4000 (Call_tune (hz 100000000 5)) \<in> set (trace (failed_world hz))"
    unfolding failed_world_def step
    by (simp_all add: e4k_set_center_freq set_tuner_corr_def tuned_world_fields flaky_env_fields)
  have again: "rtlsdr_set_freq_correction ?E (Some e4k_handle) 5 (failed_world hz)
                 = (-1, failed_world hz)"
    by (simp add: rtlsdr_set_freq_correction_def t fw)
  show ?thesis
    using open_flaky [of hz] tuned_world_fields(1) [of hz] res fw(2) again
    by (simp add: rtlsdr_get_center_freq_def rtlsdr_get_freq_correction_def t fw
          tuned_world_fields)
qed


section \<open>Probing order\<close>

lemma probe_binds:
  "fst (probe_tuners ids env w) = find (signature_matches ids env (n_i2c w)) priority_chain"
  by (simp add: probe_tuners_def i2c_read_eq gpio_bit_eq gpio_output_eq priority_chain_def Let_def
        eval_nat_numeral)

lemma bit5: "bit (x OR (0x20::u8)) 5" "\<not> bit (x AND NOT (0x20::u8)) 5"
  by (simp_all add: bit_or_iff bit_and_iff bit_not_iff)

lemma bit6: "bit (x OR (0x40::u8)) 6"
  by (simp_all add: bit_or_iff)

lemma probe_traffic:
  "\<exists>o5 e5 hi lo o6 e6. bit e5 5 \<and> bit hi 5 \<and> \<not> bit lo 5 \<and> bit e6 6 \<and>
     trace (snd (probe_tuners ids env w)) =
       trace w @ concat (take (steps_taken (fst (probe_tuners ids env w)))
                           (probe_script ids o5 e5 hi lo o6 e6))"
  apply (rule exI [where x = "fst (reg_data env (n_reg w)) AND NOT 0x20"])
  apply (rule exI [where x = "fst (reg_data env (Suc (n_reg w))) OR 0x20"])
  apply (rule exI [where x = "fst (reg_data env (Suc (Suc (n_reg w)))) OR 0x20"])
  apply (rule exI [where x = "fst (reg_data env (Suc (Suc (Suc (n_reg w))))) AND NOT 0x20"])
  apply (rule exI [where x = "fst (reg_data env (Suc (Suc (Suc (Suc (n_reg w)))))) AND NOT 0x40"])
  apply (rule exI [where x = "fst (reg_data env (Suc (Suc (Suc (Suc (Suc (n_reg w))))))) OR 0x40"])
  apply (simp only: bit5 bit6 simp_thms)
  apply (simp add: probe_tuners_def i2c_read_eq gpio_bit_eq gpio_output_eq Let_def
      probe_script_def id_read_def pin_output_def pin_write_def)
  done


lemma open_binds_probe_result:
  assumes "usb_devices env = Some list" "select_device index 0 0 list = Some i"
    "0 \<le> usb_open_status env" "0 \<le> usb_claim_status env"
  shows "\<exists>d w' wp. rtlsdr_open ids env index w0 = (0, Some d, w') \<and>
           tuner d = fst (probe_tuners ids env wp) \<and> n_i2c wp = n_i2c w0"
proof -
  define wp where "wp = rtlsdr_set_i2c_repeater True (rtlsdr_init_baseband
      (acquire ClaimedInterface (release DeviceList (acquire OpenDevice (acquire DeviceList
        (if usb_init_ok env then acquire UsbSession (acquire HandleMemory w0)
         else acquire HandleMemory w0))))))"
  have n: "n_i2c wp = n_i2c w0"
    by (simp add: wp_def repeater_eq init_baseband_frame acquire_def release_def)
  have "\<exists>d w'. rtlsdr_open ids env index w0 = (0, Some d, w') \<and>
           tuner d = fst (probe_tuners ids env wp)"
    using assms
    by (cases "usb_init_ok env")
       (simp_all add: rtlsdr_open_def wp_def Let_def split: prod.splits)
  then show ?thesis using n by blast
qed

text \<open>
  C8. Whenever \<^verbatim>\<open>rtlsdr_open\<close> gets as far as probing, the tuner it binds is the first
  variant in the order E4000, FC0013, FC2580, FC0012 whose identification read answers
  with its signature (the FC2580's masked to 7 bits), or none. The probing reads in that
  order and stops at the first match; before the FC2580 read GPIO 5 is made an output and
  driven high, then low; after an FC0012 match GPIO 6 is made an output.
\<close>

theorem probing_binds_first_match:
  "(usb_devices env = Some list \<and> select_device index 0 0 list = Some i \<and>
    0 \<le> usb_open_status env \<and> 0 \<le> usb_claim_status env \<longrightarrow>
      (\<exists>d w'. rtlsdr_open ids env index w0 = (0, Some d, w') \<and>
         tuner d = find (signature_matches ids env (n_i2c w0)) priority_chain)) \<and>
   fst (probe_tuners ids env w) = find (signature_matches ids env (n_i2c w)) priority_chain \<and>
   (\<exists>o5 e5 hi lo o6 e6. bit e5 5 \<and> bit hi 5 \<and> \<not> bit lo 5 \<and> bit e6 6 \<and>
     trace (snd (probe_tuners ids env w)) =
       trace w @ concat (take (steps_taken (fst (probe_tuners ids env w)))
                           (probe_script ids o5 e5 hi lo o6 e6)))"
proof (intro conjI impI)
  assume reach: "usb_devices env = Some list \<and> select_device index 0 0 list = Some i \<and>
    0 \<le> usb_open_status env \<and> 0 \<le> usb_claim_status env"
  then obtain d w' wp where o: "rtlsdr_open ids env index w0 = (0, Some d, w')"
      "tuner d = fst (probe_tuners ids env wp)" "n_i2c wp = n_i2c w0"
    using open_binds_probe_result [of env list index i ids w0] by blast
  have "tuner d = find (signature_matches ids env (n_i2c w0)) priority_chain"
    using o(2,3) probe_binds [of ids env wp] by simp
  then show "\<exists>d w'. rtlsdr_open ids env index w0 = (0, Some d, w') \<and>
         tuner d = find (signature_matches ids env (n_i2c w0)) priority_chain"
    using o(1) by blast
next
  show "fst (probe_tuners ids env w) = find (signature_matches ids env (n_i2c w)) priority_chain"
    by (rule probe_binds)
next
  show "\<exists>o5 e5 hi lo o6 e6. bit e5 5 \<and> bit hi 5 \<and> \<not> bit lo 5 \<and> bit e6 6 \<and>
     trace (snd (probe_tuners ids env w)) =
       trace w @ concat (take (steps_taken (fst (probe_tuners ids env w)))
                           (probe_script ids o5 e5 hi lo o6 e6))"
    by (rule probe_traffic)
qed

text \<open>
  An instance of C8's theorem: the answers carry the signatures of both the FC0013 and the
  FC2580, and the FC0013 is bound.
\<close>

theorem probing_binds_first_match_witness:
  "signature_matches example_ids (mock_env two_chip_bus 0) 0 RTLSDR_TUNER_FC0013 \<and>
   signature_matches example_ids (mock_env two_chip_bus 0) 0 RTLSDR_TUNER_FC2580 \<and>
   (\<exists>d w'. rtlsdr_open example_ids (mock_env two_chip_bus 0) 0 initial_world = (0, Some d, w') \<and>
      tuner d = Some RTLSDR_TUNER_FC0013)"
proof -
  have reach: "usb_devices (mock_env two_chip_bus 0) = Some [(0x0bda, 0x2832)] \<and>
      select_device 0 0 0 [(0x0bda, 0x2832)] = Some 0 \<and>
      0 \<le> usb_open_status (mock_env two_chip_bus 0) \<and>
      0 \<le> usb_claim_status (mock_env two_chip_bus 0)"
    by (simp add: mock_env_def find_known_device_def devices_def)
  have m: "signature_matches example_ids (mock_env two_chip_bus 0) 0 RTLSDR_TUNER_FC0013"
      "signature_matches example_ids (mock_env two_chip_bus 0) 0 RTLSDR_TUNER_FC2580"
      "\<not> signature_matches example_ids (mock_env two_chip_bus 0) 0 RTLSDR_TUNER_E4000"
    by (simp_all add: mock_env_def example_ids_def two_chip_bus_def)
  have f: "find (signature_matches example_ids (mock_env two_chip_bus 0) (n_i2c initial_world))
             priority_chain = Some RTLSDR_TUNER_FC0013"
    using m by (simp add: priority_chain_def initial_world_def)
  show ?thesis
    using probing_binds_first_match [of "mock_env two_chip_bus 0" "[(0x0bda, 0x2832)]" 0 0
        example_ids initial_world initial_world] reach m(1,2) f
    by simp
qed


end
